theory Spec2Isabelle
  imports Complex_Main "HOL-Library.Log_Nat"
begin

unbundle bit_operations_syntax

section \<open>JavaScript values\<close>

text \<open>
  The viewer receives its drawing as untyped data (\<^verbatim>\<open>readonly any[]\<close>,
  \<^verbatim>\<open>Record<string, any>\<close>), so the model works on JavaScript values: the JSON
  values plus \<^verbatim>\<open>undefined\<close>, which reading a missing property yields.

  Numbers stay abstract (the type parameter \<open>'n\<close>). The modelled code does three
  things with a number: it tests its truthiness, it writes the literal \<^verbatim>\<open>0\<close>,
  and it converts it to a string (in a property key or a template literal). These three
  operations are the parameter \<open>N\<close> of the functions below, so every theorem holds for
  IEEE doubles, whatever their string conversion is.
\<close>

datatype 'n jsval =
    JUndefined
  | JNull
  | JBool bool
  | JNum 'n
  | JStr string
  | JArr "'n jsval list"
  | JObj "(string \<times> 'n jsval) list"

record 'n number_ops =
  num_zero :: 'n
  num_falsy :: "'n \<Rightarrow> bool"
  num_toString :: "'n \<Rightarrow> string"

text \<open>Integers as numbers, for concrete instances: \<^verbatim>\<open>String(n)\<close> of an integer is
  its decimal notation.\<close>

fun digits10 :: "nat \<Rightarrow> string" where
  "digits10 n = (if n < 10 then [char_of (48 + n)]
                 else digits10 (n div 10) @ [char_of (48 + n mod 10)])"

definition int_ops :: "int number_ops" where
  "int_ops = \<lparr> num_zero = 0,
               num_falsy = (\<lambda>n. n = 0),
               num_toString = (\<lambda>n. if n < 0 then CHR ''-'' # digits10 (nat (- n))
                                     else digits10 (nat n)) \<rparr>"

fun nullish :: "'n jsval \<Rightarrow> bool" where
  "nullish JUndefined = True"
| "nullish JNull = True"
| "nullish _ = False"

text \<open>\<^verbatim>\<open>ToBoolean\<close>: what \<^verbatim>\<open>if (v)\<close>, \<^verbatim>\<open>!v\<close>, \<^verbatim>\<open>&&\<close> and \<^verbatim>\<open>||\<close> test.\<close>

fun truthy :: "'n number_ops \<Rightarrow> 'n jsval \<Rightarrow> bool" where
  "truthy N JUndefined = False"
| "truthy N JNull = False"
| "truthy N (JBool b) = b"
| "truthy N (JNum n) = (\<not> num_falsy N n)"
| "truthy N (JStr s) = (s \<noteq> [])"
| "truthy N (JArr xs) = True"
| "truthy N (JObj kvs) = True"

fun joinComma :: "string list \<Rightarrow> string" where
  "joinComma [] = []"
| "joinComma [s] = s"
| "joinComma (s # t # ss) = s @ '','' @ joinComma (t # ss)"

datatype js_error = TypeError

text \<open>The results of a list of steps that may raise: the first error, or all results.\<close>

fun collect :: "('e + 'a) list \<Rightarrow> 'e + 'a list" where
  "collect [] = Inr []"
| "collect (x # xs) =
     (case x of
        Inl e \<Rightarrow> Inl e
      | Inr a \<Rightarrow> (case collect xs of Inl e \<Rightarrow> Inl e | Inr as \<Rightarrow> Inr (a # as)))"

text \<open>
  \<^verbatim>\<open>ToString\<close>, as a template literal and a computed property key (\<^verbatim>\<open>ToPropertyKey\<close>)
  apply it. An array joins its elements with commas, \<^verbatim>\<open>null\<close> and \<^verbatim>\<open>undefined\<close>
  elements giving the empty string. An object converts through its \<^verbatim>\<open>toString\<close>
  method: the one inherited from \<^verbatim>\<open>Object.prototype\<close> gives \<^verbatim>\<open>[object Object]\<close>. An
  own \<^verbatim>\<open>toString\<close> property hides it, and in these values (data, no functions) it is
  not callable; \<^verbatim>\<open>valueOf\<close> then is not callable either or returns the object itself,
  and the conversion throws a \<^verbatim>\<open>TypeError\<close>.
\<close>

fun toStr :: "'n number_ops \<Rightarrow> 'n jsval \<Rightarrow> js_error + string" where
  "toStr N JUndefined = Inr ''undefined''"
| "toStr N JNull = Inr ''null''"
| "toStr N (JBool b) = Inr (if b then ''true'' else ''false'')"
| "toStr N (JNum n) = Inr (num_toString N n)"
| "toStr N (JStr s) = Inr s"
| "toStr N (JArr xs) =
     (case collect (map (\<lambda>v. if nullish v then Inr [] else toStr N v) xs) of
        Inl e \<Rightarrow> Inl e
      | Inr parts \<Rightarrow> Inr (joinComma parts))"
| "toStr N (JObj kvs) =
     (if map_of kvs ''toString'' = None then Inr ''[object Object]'' else Inl TypeError)"

text \<open>The values whose conversion to a string does not throw, described by their shape:
  every value but an object with an own \<^verbatim>\<open>toString\<close> property and an array that holds
  a value of that kind.\<close>

fun convertible :: "'n jsval \<Rightarrow> bool" where
  "convertible (JObj kvs) = (map_of kvs ''toString'' = None)"
| "convertible (JArr xs) = (\<forall>v \<in> set xs. convertible v)"
| "convertible v = True"

text \<open>
  Reading the property \<open>k\<close> of a value that is neither \<^verbatim>\<open>null\<close> nor
  \<^verbatim>\<open>undefined\<close> (on those the read throws a \<^verbatim>\<open>TypeError\<close>; every caller below
  tests \<open>nullish\<close> first). An object yields its own property, a later entry for a key
  overriding an earlier one as in an object literal or in JSON text; anything else yields
  \<^verbatim>\<open>undefined\<close>: the property names the code reads
  (\<^verbatim>\<open>type\<close>, \<^verbatim>\<open>fileId\<close>, \<^verbatim>\<open>id\<close>, \<^verbatim>\<open>x\<close>, \<^verbatim>\<open>y\<close>, \<^verbatim>\<open>width\<close>,
  \<^verbatim>\<open>height\<close>, \<^verbatim>\<open>dataURL\<close>, \<^verbatim>\<open>data\<close>, \<^verbatim>\<open>mimeType\<close>, \<^verbatim>\<open>name\<close>) are
  neither array indices nor \<^verbatim>\<open>length\<close> nor members of a built-in prototype.
\<close>

fun getProp :: "'n jsval \<Rightarrow> string \<Rightarrow> 'n jsval" where
  "getProp (JObj kvs) k = (case map_of (rev kvs) k of Some v \<Rightarrow> v | None \<Rightarrow> JUndefined)"
| "getProp _ k = JUndefined"

text \<open>\<^verbatim>\<open>a || b\<close> and \<^verbatim>\<open>a ?? b\<close>.\<close>

definition jsOr :: "'n number_ops \<Rightarrow> 'n jsval \<Rightarrow> 'n jsval \<Rightarrow> 'n jsval" where
  "jsOr N a b = (if truthy N a then a else b)"

definition jsCoalesce :: "'n jsval \<Rightarrow> 'n jsval \<Rightarrow> 'n jsval" where
  "jsCoalesce a b = (if nullish a then b else a)"

section \<open>The color adapter\<close>

subsection \<open>Double-precision arithmetic\<close>

text \<open>
  \<^verbatim>\<open>isDarkColor\<close> computes its luma in IEEE-754 binary64. A finite double is a
  rational number, and every operation returns the exact result rounded to the nearest
  double, ties to the even significand. \<open>roundToDouble\<close> is that rounding for the normal
  range (53-bit significands; no overflow, no subnormals: the values below lie between
  \<open>2\<^sup>-\<^sup>4\<close> and \<open>2\<^sup>8\<close>, or are zero).
\<close>

definition pow2 :: "int \<Rightarrow> rat" where
  \<comment> \<open>\<open>2\<^sup>k\<close>, computed on integers\<close>
  "pow2 k = (if 0 \<le> k then of_int (2 ^ nat k) else 1 / of_int (2 ^ nat (- k)))"

definition binade :: "rat \<Rightarrow> int" where
  \<comment> \<open>for \<open>0 < x\<close>, the exponent \<open>e\<close> with \<open>2\<^sup>e \<le> x < 2\<^sup>e\<^sup>+\<^sup>1\<close>\<close>
  "binade x = (let (p, q) = quotient_of x; d = bitlen p - bitlen q
               in if 2 powi d \<le> x then d else d - 1)"

definition roundHalfEven :: "rat \<Rightarrow> int" where
  "roundHalfEven q = (let f = \<lfloor>q\<rfloor>; d = q - of_int f
                      in if d < 1 / 2 then f
                         else if 1 / 2 < d then f + 1
                         else if even f then f else f + 1)"

definition roundToDouble :: "rat \<Rightarrow> rat" where
  "roundToDouble x = (if x = 0 then 0
                      else let ulp = 2 powi (binade x - 52)
                           in of_int (roundHalfEven (x / ulp)) * ulp)"

definition fmul :: "rat \<Rightarrow> rat \<Rightarrow> rat" where
  "fmul a b = roundToDouble (a * b)"

definition fadd :: "rat \<Rightarrow> rat \<Rightarrow> rat" where
  "fadd a b = roundToDouble (a + b)"

subsection \<open>isDarkColor and toLight\<close>

definition hexDigitValue :: "char \<Rightarrow> int option" where
  "hexDigitValue = map_of
     [(CHR ''0'', 0), (CHR ''1'', 1), (CHR ''2'', 2), (CHR ''3'', 3), (CHR ''4'', 4),
      (CHR ''5'', 5), (CHR ''6'', 6), (CHR ''7'', 7), (CHR ''8'', 8), (CHR ''9'', 9),
      (CHR ''a'', 10), (CHR ''b'', 11), (CHR ''c'', 12), (CHR ''d'', 13), (CHR ''e'', 14),
      (CHR ''f'', 15),
      (CHR ''A'', 10), (CHR ''B'', 11), (CHR ''C'', 12), (CHR ''D'', 13), (CHR ''E'', 14),
      (CHR ''F'', 15)]"

definition isHexDigit :: "char \<Rightarrow> bool" where
  "isHexDigit c = (hexDigitValue c \<noteq> None)"

text \<open>\<^verbatim>\<open>/^#?([0-9a-f]{6})$/i.exec(hex)\<close>: the capture group, or \<open>None\<close> for no match.
  Without the \<^verbatim>\<open>m\<close> flag, \<^verbatim>\<open>$\<close> matches at the end of the input only.\<close>

definition hex6 :: "string \<Rightarrow> string option" where
  "hex6 hex = (let body = (case hex of c # cs \<Rightarrow> if c = CHR ''#'' then cs else hex | [] \<Rightarrow> hex)
               in if length body = 6 \<and> list_all isHexDigit body then Some body else None)"

text \<open>\<^verbatim>\<open>parseInt(s, 16)\<close> on a string that starts with a hexadecimal digit: it reads
  digits up to the first character that is not one.\<close>

fun parseHex :: "int \<Rightarrow> string \<Rightarrow> int" where
  "parseHex acc [] = acc"
| "parseHex acc (c # cs) =
     (case hexDigitValue c of Some d \<Rightarrow> parseHex (16 * acc + d) cs | None \<Rightarrow> acc)"

text \<open>The three channels \<^verbatim>\<open>(int >> 16) & 255\<close>, \<^verbatim>\<open>(int >> 8) & 255\<close>,
  \<^verbatim>\<open>int & 255\<close>. Six hexadecimal digits are less than \<open>2\<^sup>2\<^sup>4\<close>, so the conversion to
  a 32-bit integer that the bitwise operators make is the identity.\<close>

definition channels :: "string \<Rightarrow> int \<times> int \<times> int" where
  "channels digits = (let n = parseHex 0 digits
                      in (drop_bit 16 n AND 255, drop_bit 8 n AND 255, n AND 255))"

text \<open>\<^verbatim>\<open>0.2126 * r + 0.7152 * g + 0.0722 * b\<close>, evaluated left to right in doubles; a
  decimal literal denotes the double nearest to it.\<close>

definition luma :: "int \<Rightarrow> int \<Rightarrow> int \<Rightarrow> rat" where
  "luma r g b =
     fadd (fadd (fmul (roundToDouble (2126 / 10000)) (of_int r))
                (fmul (roundToDouble (7152 / 10000)) (of_int g)))
          (fmul (roundToDouble (722 / 10000)) (of_int b))"

definition isDarkColor :: "string \<Rightarrow> bool" where
  "isDarkColor hex =
     (case hex6 hex of
        None \<Rightarrow> False
      | Some digits \<Rightarrow> (case channels digits of (r, g, b) \<Rightarrow> luma r g b < 90))"

fun toLight :: "'n jsval \<Rightarrow> 'n jsval" where
  "toLight (JStr hex) =
     (if hex = [] then JStr hex
      else if hex = ''transparent'' then JStr hex
      else if isDarkColor hex then JStr ''#e5e7eb'' else JStr hex)"
| "toLight v = v"

text \<open>The luma formula over the rationals, as the specification writes it; the code's
  \<open>luma\<close> is its evaluation in doubles.\<close>

definition exactLuma :: "int \<Rightarrow> int \<Rightarrow> int \<Rightarrow> rat" where
  "exactLuma r g b = 2126 / 10000 * of_int r + 7152 / 10000 * of_int g + 722 / 10000 * of_int b"


section \<open>The image locator\<close>

text \<open>An \<^verbatim>\<open>ImageInfo\<close> object. TypeScript's field types are erased at run time, so each
  field holds whatever value the code stores in it.\<close>

record 'n ImageInfo =
  info_id :: "'n jsval"
  info_fileId :: "'n jsval"
  info_x :: "'n jsval"
  info_y :: "'n jsval"
  info_width :: "'n jsval"
  info_height :: "'n jsval"
  info_fileName :: "'n jsval"
  info_mimeType :: "'n jsval"
  info_dataUrl :: "'n jsval"

text \<open>
  \<^verbatim>\<open>files[fileId]\<close>. The asset map is a plain object, given by its own properties, a
  dictionary from string keys to values. The key is the string conversion of
  \<^verbatim>\<open>fileId\<close>, which may throw. A key the object does not own is looked up in
  \<^verbatim>\<open>Object.prototype\<close>: eleven of its members are built-in functions (the function
  under \<^verbatim>\<open>constructor\<close> is named \<^verbatim>\<open>Object\<close>, the others are named as their key), and
  the accessor \<^verbatim>\<open>__proto__\<close> returns \<^verbatim>\<open>Object.prototype\<close> itself. Every other key
  reads as \<^verbatim>\<open>undefined\<close>.
\<close>

datatype 'n file_data = Own "'n jsval" | BuiltinFunction string | ObjectPrototype

definition objectPrototypeFunctions :: "string list" where
  "objectPrototypeFunctions =
     [''__defineGetter__'', ''__defineSetter__'', ''hasOwnProperty'', ''__lookupGetter__'',
      ''__lookupSetter__'', ''isPrototypeOf'', ''propertyIsEnumerable'', ''toString'',
      ''valueOf'', ''toLocaleString'']"

definition inheritedMember :: "string \<Rightarrow> 'n file_data" where
  "inheritedMember key =
     (if key = ''constructor'' then BuiltinFunction ''Object''
      else if key \<in> set objectPrototypeFunctions then BuiltinFunction key
      else if key = ''__proto__'' then ObjectPrototype
      else Own JUndefined)"

definition filesAt :: "(string \<rightharpoonup> 'n jsval) \<Rightarrow> string \<Rightarrow> 'n file_data" where
  "filesAt files key = (case files key of Some v \<Rightarrow> Own v | None \<Rightarrow> inheritedMember key)"

definition lookupFile ::
  "'n number_ops \<Rightarrow> (string \<rightharpoonup> 'n jsval) \<Rightarrow> 'n jsval \<Rightarrow> js_error + 'n file_data" where
  "lookupFile N files fileId =
     (case toStr N fileId of Inl e \<Rightarrow> Inl e | Inr key \<Rightarrow> Inr (filesAt files key))"

text \<open>\<^verbatim>\<open>if (fileData)\<close> and the reads \<^verbatim>\<open>fileData.dataURL\<close>, \<^verbatim>\<open>fileData.data\<close>,
  \<^verbatim>\<open>fileData.mimeType\<close>, \<^verbatim>\<open>fileData.name\<close>, \<^verbatim>\<open>fileData.id\<close>: a function and
  \<^verbatim>\<open>Object.prototype\<close> are truthy; of these five properties a built-in function has
  its \<^verbatim>\<open>name\<close>, \<^verbatim>\<open>Object.prototype\<close> none.\<close>

fun fileTruthy :: "'n number_ops \<Rightarrow> 'n file_data \<Rightarrow> bool" where
  "fileTruthy N (Own v) = truthy N v"
| "fileTruthy N (BuiltinFunction name) = True"
| "fileTruthy N ObjectPrototype = True"

fun fileProp :: "'n file_data \<Rightarrow> string \<Rightarrow> 'n jsval" where
  "fileProp (Own v) k = getProp v k"
| "fileProp (BuiltinFunction name) k = (if k = ''name'' then JStr name else JUndefined)"
| "fileProp ObjectPrototype k = JUndefined"

text \<open>The condition of the loop body, \<^verbatim>\<open>element.type === 'image' && element.fileId\<close>, for an
  element that is neither \<^verbatim>\<open>null\<close> nor \<^verbatim>\<open>undefined\<close>.\<close>

definition isImageElement :: "'n number_ops \<Rightarrow> 'n jsval \<Rightarrow> bool" where
  "isImageElement N element =
     (getProp element ''type'' = JStr ''image'' \<and> truthy N (getProp element ''fileId''))"

text \<open>The value of \<^verbatim>\<open>dataUrl\<close> after \<^verbatim>\<open>if (fileData) { ... }\<close>. The template literal
  converts \<^verbatim>\<open>mime\<close>, then \<^verbatim>\<open>fileData.data\<close>; either conversion may throw.\<close>

definition resolveDataUrl :: "'n number_ops \<Rightarrow> 'n file_data \<Rightarrow> js_error + 'n jsval" where
  "resolveDataUrl N fileData =
     (if fileTruthy N fileData then
        (if truthy N (fileProp fileData ''dataURL'') then Inr (fileProp fileData ''dataURL'')
         else if truthy N (fileProp fileData ''data'') then
           (let mime = jsOr N (fileProp fileData ''mimeType'') (JStr ''image/png'')
            in case toStr N mime of
                 Inl e \<Rightarrow> Inl e
               | Inr m \<Rightarrow>
                   (case toStr N (fileProp fileData ''data'') of
                      Inl e \<Rightarrow> Inl e
                    | Inr d \<Rightarrow> Inr (JStr (''data:'' @ m @ '';base64,'' @ d))))
         else Inr JUndefined)
      else Inr JUndefined)"

text \<open>The body of the loop for an image element: the object it pushes, or the error it
  raises.\<close>

definition imageInfoOf ::
  "'n number_ops \<Rightarrow> (string \<rightharpoonup> 'n jsval) \<Rightarrow> 'n jsval \<Rightarrow> js_error + 'n ImageInfo" where
  "imageInfoOf N files element =
     (let fileId = getProp element ''fileId''
      in case lookupFile N files fileId of
           Inl e \<Rightarrow> Inl e
         | Inr fileData \<Rightarrow>
             (case resolveDataUrl N fileData of
                Inl e \<Rightarrow> Inl e
              | Inr dataUrl \<Rightarrow>
                  Inr \<lparr> info_id = getProp element ''id'',
                        info_fileId = fileId,
                        info_x = jsCoalesce (getProp element ''x'') (JNum (num_zero N)),
                        info_y = jsCoalesce (getProp element ''y'') (JNum (num_zero N)),
                        info_width = jsCoalesce (getProp element ''width'') (JNum (num_zero N)),
                        info_height = jsCoalesce (getProp element ''height'') (JNum (num_zero N)),
                        info_fileName =
                          (if fileTruthy N fileData
                           then jsOr N (fileProp fileData ''name'')
                                  (jsOr N (fileProp fileData ''id'') fileId)
                           else JUndefined),
                        info_mimeType =
                          (if fileTruthy N fileData
                           then jsOr N (fileProp fileData ''mimeType'') (JStr ''image/png'')
                           else JUndefined),
                        info_dataUrl = dataUrl \<rparr>))"

text \<open>The \<^verbatim>\<open>for ... of\<close> loop, \<open>images\<close> being the array built so far. Reading
  \<^verbatim>\<open>element.type\<close> of \<^verbatim>\<open>null\<close> or \<^verbatim>\<open>undefined\<close> throws; nothing catches that error
  or one of the body.\<close>

fun identifyLoop ::
  "'n number_ops \<Rightarrow> (string \<rightharpoonup> 'n jsval) \<Rightarrow> 'n jsval list \<Rightarrow> 'n ImageInfo list
     \<Rightarrow> js_error + 'n ImageInfo list" where
  "identifyLoop N files [] images = Inr images"
| "identifyLoop N files (element # rest) images =
     (if nullish element then Inl TypeError
      else if isImageElement N element then
        (case imageInfoOf N files element of
           Inl e \<Rightarrow> Inl e
         | Inr info \<Rightarrow> identifyLoop N files rest (images @ [info]))
      else identifyLoop N files rest images)"

definition identifyImages ::
  "'n number_ops \<Rightarrow> 'n jsval list \<Rightarrow> (string \<rightharpoonup> 'n jsval) \<Rightarrow> js_error + 'n ImageInfo list" where
  "identifyImages N elements files = identifyLoop N files elements []"

text \<open>The entries at which the loop raises, for the statement of when \<open>identifyImages\<close>
  raises: a \<^verbatim>\<open>null\<close> or \<^verbatim>\<open>undefined\<close> entry, an image element whose \<^verbatim>\<open>fileId\<close> does
  not convert to a key, and an image element whose data URL is to be built from a media
  type or from data that do not convert to a string.\<close>

definition entryRaises :: "'n number_ops \<Rightarrow> (string \<rightharpoonup> 'n jsval) \<Rightarrow> 'n jsval \<Rightarrow> bool" where
  "entryRaises N files element =
     (nullish element \<or>
      (isImageElement N element \<and>
       (case toStr N (getProp element ''fileId'') of
          Inl e \<Rightarrow> True
        | Inr key \<Rightarrow>
            (let fileData = filesAt files key
             in fileTruthy N fileData
              \<and> \<not> truthy N (fileProp fileData ''dataURL'')
              \<and> truthy N (fileProp fileData ''data'')
              \<and> \<not> (convertible (jsOr N (fileProp fileData ''mimeType'') (JStr ''image/png''))
                   \<and> convertible (fileProp fileData ''data''))))))"

section \<open>The modal of the viewer\<close>

text \<open>The React state and refs of \<^verbatim>\<open>ExcalidrawArticle\<close> that the modal uses. A state
  setter and the assignment to a ref's \<^verbatim>\<open>current\<close> are field updates; \<open>None\<close> is
  \<^verbatim>\<open>null\<close> (or the \<^verbatim>\<open>undefined\<close> of an index out of range).\<close>

record 'a viewer_state =
  identifiedImages :: "'a list"
  selectedImage :: "'a option"
  currentImageIndex :: int
  isModalOpen :: bool
  selectedImageRef :: "'a option"
  isModalOpenRef :: bool

text \<open>\<^verbatim>\<open>xs[i]\<close> for an integer \<open>i\<close>.\<close>

definition arrayAt :: "'a list \<Rightarrow> int \<Rightarrow> 'a option" where
  "arrayAt xs i = (if 0 \<le> i \<and> i < int (length xs) then Some (xs ! nat i) else None)"

text \<open>\<^verbatim>\<open>a % n\<close> on integers, \<open>n \<noteq> 0\<close>: the remainder has the sign of the dividend.\<close>

definition jsRem :: "int \<Rightarrow> int \<Rightarrow> int" where
  "jsRem a n = sgn a * (\<bar>a\<bar> mod \<bar>n\<bar>)"

definition navigateToNextImage :: "'a viewer_state \<Rightarrow> 'a viewer_state" where
  "navigateToNextImage s =
     (if length (identifiedImages s) = 0 then s
      else let nextIndex = jsRem (currentImageIndex s + 1) (int (length (identifiedImages s)));
               nextImage = arrayAt (identifiedImages s) nextIndex
           in s\<lparr> currentImageIndex := nextIndex,
                 selectedImage := nextImage,
                 selectedImageRef := nextImage \<rparr>)"

definition navigateToPrevImage :: "'a viewer_state \<Rightarrow> 'a viewer_state" where
  "navigateToPrevImage s =
     (if length (identifiedImages s) = 0 then s
      else let prevIndex = jsRem (currentImageIndex s - 1 + int (length (identifiedImages s)))
                                 (int (length (identifiedImages s)));
               prevImage = arrayAt (identifiedImages s) prevIndex
           in s\<lparr> currentImageIndex := prevIndex,
                 selectedImage := prevImage,
                 selectedImageRef := prevImage \<rparr>)"

definition handleKeyboard :: "string \<Rightarrow> 'a viewer_state \<Rightarrow> 'a viewer_state" where
  "handleKeyboard key s =
     (if key = ''Escape'' then
        s\<lparr> selectedImageRef := None, isModalOpenRef := False,
           isModalOpen := False, selectedImage := None \<rparr>
      else if key = ''ArrowRight'' then navigateToNextImage s
      else if key = ''ArrowLeft'' then navigateToPrevImage s
      else s)"

text \<open>A \<^verbatim>\<open>keydown\<close> event on the window. The effect registers \<open>handleKeyboard\<close> only while
  \<open>isModalOpen\<close> holds (\<^verbatim>\<open>if (!isModalOpen) return;\<close>) and removes it when that changes.\<close>

definition keydown :: "string \<Rightarrow> 'a viewer_state \<Rightarrow> 'a viewer_state" where
  "keydown key s = (if isModalOpen s then handleKeyboard key s else s)"

section \<open>The export buttons\<close>

subsection \<open>Printing\<close>

text \<open>What \<^verbatim>\<open>ExportButtons\<close> reads and writes when printing: the \<^verbatim>\<open>dark\<close> class of the
  document element, the \<^verbatim>\<open>theme\<close> key of local storage, its ref and its two state
  variables, and the calls of \<^verbatim>\<open>window.print()\<close> made so far.\<close>

record export_state =
  darkClass :: bool
  storedTheme :: "string option"
  previousThemeRef :: "string option"
  isPrinting :: bool
  isExcalLoading :: bool
  printCalls :: nat

text \<open>\<^verbatim>\<open>handlePrintPDF\<close>, run to its end. The forced re-render, the \<^verbatim>\<open>beforeprint\<close> event
  and the delay of 300 ms leave these fields alone (the viewer's render catches its own
  errors and touches neither the theme nor local storage).\<close>

definition handlePrintPDF :: "export_state \<Rightarrow> export_state" where
  "handlePrintPDF s =
     (if isExcalLoading s then s
      else s\<lparr> isPrinting := True,
             previousThemeRef := Some (if darkClass s then ''dark'' else ''light''),
             darkClass := False,
             storedTheme := Some ''light'',
             printCalls := printCalls s + 1 \<rparr>)"

definition handleAfterPrint :: "export_state \<Rightarrow> export_state" where
  "handleAfterPrint s =
     (if previousThemeRef s = Some ''dark''
      then s\<lparr> darkClass := True, storedTheme := Some ''dark'', isPrinting := False \<rparr>
      else s\<lparr> darkClass := False, storedTheme := Some ''light'', isPrinting := False \<rparr>)"

subsection \<open>Downloading\<close>

text \<open>
  The viewer and the export buttons talk through properties that the viewer sets on
  the DOM node carrying \<^verbatim>\<open>data-excal\<close>. Such a property holds a function or something
  else; of a function the model keeps what awaiting a call of it yields.
\<close>

datatype 'svg call_result = ReturnsSvg 'svg | ReturnsFalsy | ReturnsOther | Throws

datatype 'svg expando = Function "'svg call_result" | NotAFunction

record 'svg container =
  expandos :: "string \<rightharpoonup> 'svg expando"
  renderedSvg :: "'svg option"

text \<open>The node as React creates it, and what the viewer does to it afterwards. Its
  effect exposes three functions (it runs again whenever \<open>loading\<close> changes):
  \<^verbatim>\<open>__generateLightSVG\<close> resolves to an SVG element or to \<^verbatim>\<open>null\<close>,
  \<^verbatim>\<open>__forceLightRender\<close> to nothing, \<^verbatim>\<open>__isLoading\<close> returns a boolean. A render
  replaces the SVG element inside the node, or leaves none when the export fails.\<close>

definition freshContainer :: "'svg container" where
  "freshContainer = \<lparr> expandos = Map.empty, renderedSvg = None \<rparr>"

definition exposeViewer :: "bool \<Rightarrow> 'svg option \<Rightarrow> 'svg container \<Rightarrow> 'svg container" where
  "exposeViewer loading lightSvg c =
     c\<lparr> expandos := (expandos c)
          (''__generateLightSVG'' \<mapsto>
             Function (case lightSvg of Some svg \<Rightarrow> ReturnsSvg svg | None \<Rightarrow> ReturnsFalsy),
           ''__forceLightRender'' \<mapsto> Function ReturnsFalsy,
           ''__isLoading'' \<mapsto> Function (if loading then ReturnsOther else ReturnsFalsy)) \<rparr>"

datatype 'svg viewer_action = ExposeFunctions bool "'svg option" | Render "'svg option"

fun viewerAction :: "'svg viewer_action \<Rightarrow> 'svg container \<Rightarrow> 'svg container" where
  "viewerAction (ExposeFunctions loading lightSvg) c = exposeViewer loading lightSvg c"
| "viewerAction (Render svg) c = c\<lparr> renderedSvg := svg \<rparr>"

text \<open>The node after the viewer's actions, the first of the list first.\<close>

definition viewerContainer :: "'svg viewer_action list \<Rightarrow> 'svg container" where
  "viewerContainer actions = foldl (\<lambda>c a. viewerAction a c) freshContainer actions"

datatype svg_origin = Regenerated | Rendered | ArticleFallback

datatype 'svg download =
    Blocked
  | AlertNoDrawing
  | AlertNoSvg
  | AlertError
  | Downloaded svg_origin 'svg

text \<open>\<open>Downloaded origin svg\<close>: the element that is cloned, serialised and offered as a
  file, and where it came from.

  \<^verbatim>\<open>handleDownloadSVG\<close>: \<open>excal\<close> is the result of
  \<^verbatim>\<open>document.querySelector('[data-excal]')\<close>, \<open>articleSvg\<close> the first SVG element of the
  article, if there is an article with one. A value that is not an SVG element fails
  at \<^verbatim>\<open>cloneNode\<close>, which the \<^verbatim>\<open>catch\<close> turns into the error alert.\<close>

definition handleDownloadSVG ::
  "bool \<Rightarrow> 'svg container option \<Rightarrow> 'svg option \<Rightarrow> 'svg download" where
  "handleDownloadSVG loading excal articleSvg =
     (if loading then Blocked
      else case excal of
        None \<Rightarrow> AlertNoDrawing
      | Some excalContainer \<Rightarrow>
          (let fallback =
                 (case renderedSvg excalContainer of
                    Some svg \<Rightarrow> Downloaded Rendered svg
                  | None \<Rightarrow>
                      (case articleSvg of
                         Some svg \<Rightarrow> Downloaded ArticleFallback svg
                       | None \<Rightarrow> AlertNoSvg))
           in case expandos excalContainer ''__generateSVG'' of
                Some (Function (ReturnsSvg svg)) \<Rightarrow> Downloaded Regenerated svg
              | Some (Function ReturnsOther) \<Rightarrow> AlertError
              | Some (Function Throws) \<Rightarrow> AlertError
              | _ \<Rightarrow> fallback))"

section \<open>Properties of the color adapter\<close>

subsection \<open>The rounding stays within half a unit in the last place\<close>

lemma bitlen_powi_bounds:
  assumes "0 < p"
  shows "(2::rat) powi (bitlen p - 1) \<le> of_int p" and "of_int p < (2::rat) powi (bitlen p)"
proof -
  from assms have b1: "1 \<le> bitlen p"
    using bitlen_eq_zero_iff [of p] bitlen_nonneg [of p] by linarith
  from bitlen_bounds [OF assms]
  have lo: "2 ^ nat (bitlen p - 1) \<le> p" and hi: "p < 2 ^ nat (bitlen p)" by simp_all
  have "(of_int (2 ^ nat (bitlen p - 1)) :: rat) \<le> of_int p"
    using lo by (simp only: of_int_le_iff)
  then show "(2::rat) powi (bitlen p - 1) \<le> of_int p"
    using b1 by (simp add: power_int_nonneg_exp)
  have "(of_int p :: rat) < of_int (2 ^ nat (bitlen p))"
    using hi by (simp only: of_int_less_iff)
  then show "of_int p < (2::rat) powi (bitlen p)"
    using b1 by (simp add: power_int_nonneg_exp)
qed

lemma binade_bounds:
  assumes "0 < x"
  shows "2 powi binade x \<le> x" and "x < 2 powi (binade x + 1)"
proof -
  obtain p q where pq: "quotient_of x = (p, q)" by (cases "quotient_of x")
  then have q: "0 < q" and x: "x = of_int p / of_int q"
    using quotient_of_denom_pos quotient_of_div by blast+
  with assms have p: "0 < p"
    by (simp add: zero_less_divide_iff)
  let ?d = "bitlen p - bitlen q"
  note P = bitlen_powi_bounds [OF p] and Q = bitlen_powi_bounds [OF q]
  have qpos: "(0::rat) < of_int q" using q by simp
  have up: "x < 2 powi (?d + 1)"
  proof -
    have "x < 2 powi bitlen p / of_int q"
      unfolding x using P(2) qpos by (simp add: divide_strict_right_mono)
    also have "\<dots> \<le> 2 powi bitlen p / 2 powi (bitlen q - 1)"
      using Q(1) q by (intro divide_left_mono) (auto intro!: mult_pos_pos)
    also have "\<dots> = 2 powi (?d + 1)"
      by (simp add: power_int_diff [symmetric] algebra_simps)
    finally show ?thesis .
  qed
  have low: "2 powi (?d - 1) \<le> x"
  proof -
    have "(2::rat) powi (?d - 1) = 2 powi (bitlen p - 1) / 2 powi bitlen q"
      by (simp add: power_int_diff [symmetric] algebra_simps)
    also have "\<dots> \<le> of_int p / 2 powi bitlen q"
      using P(1) by (intro divide_right_mono) (auto simp: less_imp_le)
    also have "\<dots> \<le> of_int p / of_int q"
      using Q(2) p qpos by (intro divide_left_mono) (auto simp: less_imp_le intro!: mult_pos_pos)
    finally show ?thesis unfolding x .
  qed
  show "2 powi binade x \<le> x"
    using low by (auto simp: binade_def pq Let_def)
  show "x < 2 powi (binade x + 1)"
    using up by (auto simp: binade_def pq Let_def not_le)
qed

lemma roundHalfEven_error: "\<bar>of_int (roundHalfEven q) - q\<bar> \<le> 1 / 2"
proof -
  have "of_int \<lfloor>q\<rfloor> \<le> q" "q < of_int \<lfloor>q\<rfloor> + 1" by linarith+
  then show ?thesis
    by (auto simp: roundHalfEven_def Let_def abs_le_iff)
qed

lemma roundHalfEven_nonneg: "0 \<le> q \<Longrightarrow> 0 \<le> roundHalfEven q"
  by (auto simp: roundHalfEven_def Let_def)

lemma roundToDouble_nonneg:
  assumes "0 \<le> x"
  shows "0 \<le> roundToDouble x"
proof -
  have "0 \<le> x / 2 powi (binade x - 52)" using assms by simp
  then have "0 \<le> roundHalfEven (x / 2 powi (binade x - 52))"
    by (rule roundHalfEven_nonneg)
  then show ?thesis
    by (simp add: roundToDouble_def Let_def)
qed

lemma roundToDouble_error:
  assumes "0 \<le> x" and "x \<le> 512"
  shows "\<bar>roundToDouble x - x\<bar> \<le> 1 / 2 ^ 44"
proof (cases "x = 0")
  case True
  then show ?thesis by (simp add: roundToDouble_def)
next
  case False
  with assms have pos: "0 < x" by simp
  define e where "e = binade x"
  define u :: rat where "u = 2 powi (e - 52)"
  define n where "n = roundHalfEven (x / u)"
  have upos: "0 < u" by (simp add: u_def)
  have "2 powi e \<le> x" using binade_bounds(1) [OF pos] by (simp add: e_def)
  with assms have "(2::rat) powi e \<le> 2 powi 9" by simp
  then have e9: "e \<le> 9"
    using power_int_le_imp_le_exp [of "2::rat" e 9] by simp
  have "roundToDouble x = of_int n * u"
    using False by (simp add: roundToDouble_def u_def e_def n_def Let_def)
  moreover have "of_int n * u - x = u * (of_int n - x / u)"
    using upos by (simp add: field_simps)
  ultimately have "\<bar>roundToDouble x - x\<bar> = u * \<bar>of_int n - x / u\<bar>"
    using upos by (simp add: abs_mult)
  also have "\<dots> \<le> u * (1 / 2)"
    using roundHalfEven_error [of "x / u"] upos
    by (intro mult_left_mono) (simp_all add: n_def)
  also have "\<dots> = 2 powi (e - 53)"
    using power_int_diff [of "2::rat" "e - 52" 1] by (simp add: u_def)
  also have "\<dots> \<le> 2 powi (- 44)"
    using e9 by (intro power_int_increasing) simp_all
  also have "\<dots> = 1 / 2 ^ 44"
    by (simp add: power_int_minus_divide)
  finally show ?thesis .
qed

lemma product_close:
  fixes a v :: rat
  assumes a: "1 / 2 ^ 44 \<le> a" "a \<le> 1" and v: "0 \<le> v" "v \<le> 255"
  shows "\<bar>fmul (roundToDouble a) v - a * v\<bar> \<le> 256 * (1 / 2 ^ 44)"
    and "0 \<le> fmul (roundToDouble a) v"
proof -
  define c where "c = roundToDouble a"
  define h :: rat where "h = 1 / 2 ^ 44"
  have h: "0 \<le> h" "h \<le> 1" by (simp_all add: h_def)
  have a0: "0 \<le> a" using a(1) h(1) by (simp add: h_def)
  have ca: "\<bar>c - a\<bar> \<le> h"
    unfolding c_def h_def using a0 a(2) by (intro roundToDouble_error) simp_all
  have c0: "0 \<le> c" unfolding c_def using a0 by (rule roundToDouble_nonneg)
  have c2: "c \<le> 2" using ca a(2) h by linarith
  have "\<bar>c * v - a * v\<bar> = \<bar>c - a\<bar> * v"
    using v(1) by (simp add: abs_mult left_diff_distrib [symmetric])
  also have "\<dots> \<le> h * 255"
    using ca v by (intro mult_mono) simp_all
  finally have scaled: "\<bar>c * v - a * v\<bar> \<le> 255 * h" by simp
  have cv0: "0 \<le> c * v" using c0 v(1) by simp
  have "c * v \<le> 2 * 255" using c2 c0 v by (intro mult_mono) simp_all
  then have cv512: "c * v \<le> 512" by simp
  have "\<bar>roundToDouble (c * v) - c * v\<bar> \<le> h"
    unfolding h_def using cv0 cv512 by (rule roundToDouble_error)
  with scaled have "\<bar>roundToDouble (c * v) - a * v\<bar> \<le> 256 * h" by linarith
  then show "\<bar>fmul (roundToDouble a) v - a * v\<bar> \<le> 256 * (1 / 2 ^ 44)"
    by (simp only: fmul_def c_def h_def)
  show "0 \<le> fmul (roundToDouble a) v"
    unfolding fmul_def c_def [symmetric] using cv0 by (rule roundToDouble_nonneg)
qed

lemma luma_close:
  assumes "0 \<le> r" "r \<le> 255" "0 \<le> g" "g \<le> 255" "0 \<le> b" "b \<le> 255"
  shows "\<bar>luma r g b - exactLuma r g b\<bar> \<le> 770 * (1 / 2 ^ 44)"
proof -
  define R G B :: rat where "R = of_int r" and "G = of_int g" and "B = of_int b"
  have R: "0 \<le> R" "R \<le> 255" and G: "0 \<le> G" "G \<le> 255" and B: "0 \<le> B" "B \<le> 255"
    using assms by (simp_all add: R_def G_def B_def)
  define h :: rat where "h = 1 / 2 ^ 44"
  have h: "0 \<le> h" "h \<le> 1 / 1000" by (simp_all add: h_def)
  define p1 p2 p3 where "p1 = fmul (roundToDouble (2126 / 10000)) R"
    and "p2 = fmul (roundToDouble (7152 / 10000)) G"
    and "p3 = fmul (roundToDouble (722 / 10000)) B"
  have e1: "\<bar>p1 - 2126 / 10000 * R\<bar> \<le> 256 * h" and n1: "0 \<le> p1"
    unfolding p1_def h_def using R by (intro product_close; simp)+
  have e2: "\<bar>p2 - 7152 / 10000 * G\<bar> \<le> 256 * h" and n2: "0 \<le> p2"
    unfolding p2_def h_def using G by (intro product_close; simp)+
  have e3: "\<bar>p3 - 722 / 10000 * B\<bar> \<le> 256 * h" and n3: "0 \<le> p3"
    unfolding p3_def h_def using B by (intro product_close; simp)+
  define s1 where "s1 = fadd p1 p2"
  have u1: "p1 \<le> 60" using e1 R h by linarith
  have u2: "p2 \<le> 190" using e2 G h by linarith
  have u3: "p3 \<le> 20" using e3 B h by linarith
  have es1: "\<bar>s1 - (p1 + p2)\<bar> \<le> h"
    unfolding s1_def fadd_def h_def using n1 n2 u1 u2 by (intro roundToDouble_error) simp_all
  have ns1: "0 \<le> s1"
    unfolding s1_def fadd_def using n1 n2 by (intro roundToDouble_nonneg) simp
  have us1: "s1 \<le> 251" using es1 u1 u2 h by linarith
  have es: "\<bar>fadd s1 p3 - (s1 + p3)\<bar> \<le> h"
    unfolding fadd_def h_def using ns1 n3 us1 u3 by (intro roundToDouble_error) simp_all
  have l: "luma r g b = fadd s1 p3"
    by (simp add: luma_def s1_def p1_def p2_def p3_def R_def G_def B_def)
  have x: "exactLuma r g b = 2126 / 10000 * R + 7152 / 10000 * G + 722 / 10000 * B"
    by (simp add: exactLuma_def R_def G_def B_def)
  have "\<bar>fadd s1 p3 - (2126 / 10000 * R + 7152 / 10000 * G + 722 / 10000 * B)\<bar> \<le> 770 * h"
    using e1 e2 e3 es1 es by linarith
  then show ?thesis
    by (simp only: l x h_def)
qed




subsection \<open>Evaluating the luma at the colors whose exact luma is 90\<close>

text \<open>Code equations that compute powers of two on integers and use the three literals'
  doubles, so that the kernel evaluates \<open>luma\<close> quickly.\<close>

lemma pow2_eq: "pow2 k = 2 powi k"
  by (simp add: pow2_def power_int_def field_simps)

lemma binade_code [code]:
  "binade x = (let (p, q) = quotient_of x; d = bitlen p - bitlen q
               in if pow2 d \<le> x then d else d - 1)"
  by (simp add: binade_def pow2_eq)

lemma roundToDouble_code [code]:
  "roundToDouble x = (if x = 0 then 0
                      else let ulp = pow2 (binade x - 52)
                           in of_int (roundHalfEven (x / ulp)) * ulp)"
  by (simp add: roundToDouble_def pow2_eq)

lemma literal_doubles:
  "roundToDouble (2126 / 10000) = 1914930561557935 / 9007199254740992"
  "roundToDouble (7152 / 10000) = 6441948906990757 / 9007199254740992"
  "roundToDouble (722 / 10000) = 5202558289538397 / 72057594037927936"
  by code_simp+

lemma luma_code [code]:
  "luma r g b =
     fadd (fadd (fmul (1914930561557935 / 9007199254740992) (of_int r))
                (fmul (6441948906990757 / 9007199254740992) (of_int g)))
          (fmul (5202558289538397 / 72057594037927936) (of_int b))"
  by (simp only: luma_def literal_doubles)

text \<open>The rounding at work on a familiar sum: \<^verbatim>\<open>0.1 + 0.2\<close> is the double next above
  \<^verbatim>\<open>0.3\<close>.\<close>

lemma tenth_plus_fifth:
  "fadd (roundToDouble (1 / 10)) (roundToDouble (2 / 10)) = 5404319552844596 / 2 ^ 54"
  "roundToDouble (3 / 10) = 5404319552844595 / 2 ^ 54"
  by code_simp+

text \<open>The two colors of exact luma 90 that come out one unit in the last place below 90,
  and the fifteen that come out as 90.\<close>

lemma luma_boundary_value: "luma 42 97 162 = 90 - 1 / 2 ^ 46" "luma 107 80 139 = 90 - 1 / 2 ^ 46"
  by code_simp+

lemma luma_boundary_dark: "luma 42 97 162 < 90" "luma 107 80 139 < 90"
  by (simp_all add: luma_boundary_value)

lemma luma_boundary_light1:
  "\<not> luma 8 117 64 < 90" "\<not> luma 25 107 113 < 90" "\<not> luma 59 87 211 < 90"
  "\<not> luma 73 100 41 < 90" "\<not> luma 90 90 90 < 90"
  by code_simp+

lemma luma_boundary_light2:
  "\<not> luma 124 70 188 < 90" "\<not> luma 138 83 18 < 90" "\<not> luma 141 60 237 < 90"
  "\<not> luma 155 73 67 < 90" "\<not> luma 172 63 116 < 90"
  by code_simp+

lemma luma_boundary_light3:
  "\<not> luma 189 53 165 < 90"
  "\<not> luma 206 43 214 < 90" "\<not> luma 220 56 44 < 90" "\<not> luma 237 46 93 < 90"
  "\<not> luma 254 36 142 < 90"
  by code_simp+


text \<open>The exact luma is a multiple of \<open>1/5000\<close>, so a rounding error below that decides
  the comparison with 90 except where the exact luma is 90: at seventeen colors.\<close>

lemma exactLuma_int: "exactLuma r g b = of_int (1063 * r + 3576 * g + 361 * b) / 5000"
  by (simp add: exactLuma_def field_simps)

lemma luma90_candidates:
  "list_all (\<lambda>g. let r = (18 * (450000 - 3576 * g)) mod 361;
                      b = (450000 - 3576 * g - 1063 * r) div 361
                  in (0 \<le> r \<and> r \<le> 255 \<and> 0 \<le> b \<and> b \<le> 255 \<and>
                      1063 * r + 3576 * g + 361 * b = 450000) \<longrightarrow>
                     (r, g, b) \<in> set [(8, 117, 64), (25, 107, 113), (42, 97, 162),
                       (59, 87, 211), (73, 100, 41), (90, 90, 90), (107, 80, 139),
                       (124, 70, 188), (138, 83, 18), (141, 60, 237), (155, 73, 67),
                       (172, 63, 116), (189, 53, 165), (206, 43, 214), (220, 56, 44),
                       (237, 46, 93), (254, 36, 142)])
     [0..255]"
  by code_simp

lemma luma90_solutions:
  assumes "0 \<le> r" "r \<le> 255" "0 \<le> g" "g \<le> 255" "0 \<le> b" "b \<le> 255"
    and eq: "1063 * r + 3576 * g + 361 * b = 450000"
  shows "(r, g, b) \<in> set [(8, 117, 64), (25, 107, 113), (42, 97, 162),
                       (59, 87, 211), (73, 100, 41), (90, 90, 90), (107, 80, 139),
                       (124, 70, 188), (138, 83, 18), (141, 60, 237), (155, 73, 67),
                       (172, 63, 116), (189, 53, 165), (206, 43, 214), (220, 56, 44),
                       (237, 46, 93), (254, 36, 142 :: int)]"
proof -
  have "18 * (450000 - 3576 * g) = 18 * (1063 * r + 361 * b)"
    using eq by simp
  also have "\<dots> = r + 361 * (53 * r + 18 * b)"
    by (simp add: algebra_simps)
  finally have E: "18 * (450000 - 3576 * g) = r + 361 * (53 * r + 18 * b)" .
  have "(18 * (450000 - 3576 * g)) mod 361 = (r + 361 * (53 * r + 18 * b)) mod 361"
    by (simp only: E)
  also have "\<dots> = r mod 361" by (rule mod_mult_self2)
  also have "\<dots> = r" using assms(1,2) by simp
  finally have r: "(18 * (450000 - 3576 * g)) mod 361 = r" .
  have "450000 - 3576 * g - 1063 * r = b * 361" using eq by simp
  then have b: "(450000 - 3576 * g - 1063 * r) div 361 = b" by simp
  have "g \<in> set [0..255]" using assms(3,4) by simp
  with luma90_candidates show ?thesis
    using assms r b eq unfolding list_all_iff Let_def by blast
qed

lemma luma_lt_90_iff:
  assumes "0 \<le> r" "r \<le> 255" "0 \<le> g" "g \<le> 255" "0 \<le> b" "b \<le> 255"
  shows "(luma r g b < 90) =
         (exactLuma r g b < 90 \<or> (r, g, b) = (42, 97, 162) \<or> (r, g, b) = (107, 80, 139))"
proof -
  define m where "m = 1063 * r + 3576 * g + 361 * b"
  define h :: rat where "h = 1 / 2 ^ 44"
  have h: "0 \<le> h" "770 * h < 1 / 5000" by (simp_all add: h_def)
  have x: "exactLuma r g b = of_int m / 5000"
    by (simp add: exactLuma_int m_def)
  have close: "\<bar>luma r g b - of_int m / 5000\<bar> \<le> 770 * h"
    using luma_close [OF assms] by (simp only: x h_def)
  consider "m \<le> 449999" | "m = 450000" | "450001 \<le> m" by linarith
  then show ?thesis
  proof cases
    case 1
    then have "(of_int m :: rat) \<le> of_int 449999" by (simp only: of_int_le_iff)
    then have le: "(of_int m :: rat) / 5000 \<le> 449999 / 5000" by simp
    with close h have "luma r g b < 90" by linarith
    moreover from le have "exactLuma r g b < 90" by (simp add: x)
    ultimately show ?thesis by simp
  next
    case 3
    then have "(of_int 450001 :: rat) \<le> of_int m" by (simp only: of_int_le_iff)
    then have ge: "450001 / 5000 \<le> (of_int m :: rat) / 5000" by simp
    with close h have "\<not> luma r g b < 90" by linarith
    moreover from ge have "\<not> exactLuma r g b < 90" by (simp add: x)
    moreover from 3 have "(r, g, b) \<noteq> (42, 97, 162)" "(r, g, b) \<noteq> (107, 80, 139)"
      by (auto simp: m_def)
    ultimately show ?thesis by simp
  next
    case 2
    then have "\<not> exactLuma r g b < 90" by (simp add: x)
    moreover from 2 have "(r, g, b) \<in> set [(8, 117, 64), (25, 107, 113), (42, 97, 162),
                       (59, 87, 211), (73, 100, 41), (90, 90, 90), (107, 80, 139),
                       (124, 70, 188), (138, 83, 18), (141, 60, 237), (155, 73, 67),
                       (172, 63, 116), (189, 53, 165), (206, 43, 214), (220, 56, 44),
                       (237, 46, 93), (254, 36, 142)]"
      using assms by (intro luma90_solutions) (simp_all add: m_def)
    ultimately show ?thesis
      using luma_boundary_dark luma_boundary_light1 luma_boundary_light2 luma_boundary_light3
      by auto
  qed
qed

lemma channels_range:
  assumes "channels digits = (r, g, b)"
  shows "0 \<le> r" "r \<le> 255" "0 \<le> g" "g \<le> 255" "0 \<le> b" "b \<le> 255"
  using assms by (auto simp: channels_def Let_def AND_upper2)


lemma hex6_nonempty: "hex6 c = Some digits \<Longrightarrow> c \<noteq> [] \<and> c \<noteq> ''transparent''"
  by (auto simp: hex6_def Let_def split: if_splits)

lemma toLight_characterisation:
  "toLight (JStr c) =
     (case hex6 c of
        None \<Rightarrow> JStr c
      | Some digits \<Rightarrow>
          (case channels digits of (r, g, b) \<Rightarrow>
             if exactLuma r g b < 90 \<or> (r, g, b) = (42, 97, 162) \<or> (r, g, b) = (107, 80, 139)
             then JStr ''#e5e7eb'' else JStr c))"
proof (cases "hex6 c")
  case None
  then show ?thesis by (simp add: isDarkColor_def)
next
  case (Some digits)
  obtain r g b where ch: "channels digits = (r, g, b)" by (cases "channels digits")
  have "isDarkColor c = (luma r g b < 90)"
    by (simp add: isDarkColor_def Some ch)
  also have "\<dots> = (exactLuma r g b < 90 \<or> (r, g, b) = (42, 97, 162) \<or> (r, g, b) = (107, 80, 139))"
    using channels_range [OF ch] by (rule luma_lt_90_iff)
  finally show ?thesis
    using hex6_nonempty [OF Some] by (simp add: Some ch)
qed

lemma hex6_examples:
  "hex6 ''#000000'' = Some ''000000''" "hex6 ''#ffffff'' = Some ''ffffff''"
  "hex6 ''transparent'' = None" "hex6 ''#2a61a2'' = Some ''2a61a2''"
  "hex6 ''#e5e7eb'' = Some ''e5e7eb''"
  by code_simp+

lemma channels_examples:
  "channels ''000000'' = (0, 0, 0)" "channels ''ffffff'' = (255, 255, 255)"
  "channels ''2a61a2'' = (42, 97, 162)" "channels ''e5e7eb'' = (229, 231, 235)"
  by code_simp+

subsection \<open>The claims on the color adapter\<close>

text \<open>
  Claim C3, as amended. For every input string \<open>c\<close>: if \<open>c\<close> is a six-hex-digit color
  (optionally prefixed with \<^verbatim>\<open>#\<close>) whose luma \<open>0.2126 R + 0.7152 G + 0.0722 B\<close> is
  below 90, or whose channels are (42, 97, 162) or (107, 80, 139), then \<open>toLight\<close> returns
  \<^verbatim>\<open>#e5e7eb\<close>; otherwise it returns \<open>c\<close> unchanged. The two named colors have a luma
  of exactly 90, which the double arithmetic of \<open>isDarkColor\<close> rounds to
  89.99999999999999. In particular \<^verbatim>\<open>#000000\<close> gives \<^verbatim>\<open>#e5e7eb\<close>, and
  \<^verbatim>\<open>#ffffff\<close> and \<^verbatim>\<open>transparent\<close> come back unchanged, as does every string that
  is not such a color.
\<close>

theorem toLight_by_luma:
  "toLight (JStr c :: 'n jsval) =
     (case hex6 c of
        None \<Rightarrow> JStr c
      | Some digits \<Rightarrow>
          (case channels digits of (r, g, b) \<Rightarrow>
             if exactLuma r g b < 90 \<or> (r, g, b) = (42, 97, 162) \<or> (r, g, b) = (107, 80, 139)
             then JStr ''#e5e7eb'' else JStr c))
   \<and> toLight (JStr ''#000000'' :: 'n jsval) = JStr ''#e5e7eb''
   \<and> toLight (JStr ''#ffffff'' :: 'n jsval) = JStr ''#ffffff''
   \<and> toLight (JStr ''transparent'' :: 'n jsval) = JStr ''transparent''"
  by (simp add: toLight_characterisation hex6_examples channels_examples exactLuma_def
        del: toLight.simps)

theorem toLight_by_luma_witness:
  "toLight (JStr ''#2a61a2'' :: int jsval) = JStr ''#e5e7eb''"
  using toLight_by_luma [where ?'n = int and c = "''#2a61a2''"]
  by (simp add: hex6_examples channels_examples del: toLight.simps)

text \<open>The claim as written fails at \<^verbatim>\<open>#2a61a2\<close>: its luma is 90, not below 90, and
  \<open>toLight\<close> replaces it.\<close>

theorem toLight_boundary_counterexample:
  "hex6 ''#2a61a2'' = Some ''2a61a2'' \<and> channels ''2a61a2'' = (42, 97, 162)
   \<and> exactLuma 42 97 162 = 90
   \<and> luma 42 97 162 = 90 - 1 / 2 ^ 46
   \<and> toLight (JStr ''#2a61a2'' :: int jsval) = JStr ''#e5e7eb''"
  by (simp add: toLight_characterisation hex6_examples channels_examples exactLuma_def
        luma_boundary_value del: toLight.simps)

text \<open>
  Claim C4. The color adapter is idempotent: \<open>toLight (toLight c) = toLight c\<close>, for every
  six-hex-digit color string \<open>c\<close> and for every other argument as well.
\<close>

theorem toLight_idempotent: "toLight (toLight v) = toLight v"
proof (cases v)
  case (JStr c)
  have "toLight (JStr ''#e5e7eb'' :: 'a jsval) = JStr ''#e5e7eb''"
    by (simp add: toLight_characterisation hex6_examples channels_examples exactLuma_def
          del: toLight.simps)
  then show ?thesis
    unfolding JStr by (cases "isDarkColor c") simp_all
qed simp_all

theorem toLight_idempotent_witness:
  "toLight (toLight (JStr ''#1f2937'' :: int jsval)) = toLight (JStr ''#1f2937'')"
  by (rule toLight_idempotent)

section \<open>Properties of the image locator\<close>

lemma js_error_TypeError: "(e :: js_error) = TypeError"
  by (cases e)

lemma collect_isl: "isl (collect xs) = (\<exists>x \<in> set xs. isl x)"
  by (induction xs) (auto split: sum.splits)

lemma toStr_isl: "isl (toStr N v) = (\<not> convertible v)"
proof (induction N v rule: toStr.induct)
  case (6 N xs)
  have "isl (toStr N (JArr xs))
        = isl (collect (map (\<lambda>v. if nullish v then Inr [] else toStr N v) xs))"
    by (simp split: sum.splits)
  also have "\<dots> = (\<exists>v \<in> set xs. \<not> nullish v \<and> isl (toStr N v))"
    by (auto simp add: collect_isl)
  also have "\<dots> = (\<exists>v \<in> set xs. \<not> convertible v)"
  proof -
    have "nullish v \<Longrightarrow> convertible v" for v :: "'a jsval"
      by (cases v) simp_all
    with 6 show ?thesis by blast
  qed
  finally show ?case by simp
qed simp_all

lemma toStr_raises: "(toStr N v = Inl TypeError) = (\<not> convertible v)"
  using toStr_isl [of N v] js_error_TypeError by (cases "toStr N v") auto

lemma toStr_convertible: "convertible v \<Longrightarrow> \<exists>s. toStr N v = Inr s"
  using toStr_isl [of N v] by (cases "toStr N v") auto

lemma isImageElement_object: "isImageElement N element \<Longrightarrow> \<exists>properties. element = JObj properties"
  by (cases element) (simp_all add: isImageElement_def)

lemma resolveDataUrl_isl:
  "isl (resolveDataUrl N fileData) =
     (fileTruthy N fileData
      \<and> \<not> truthy N (fileProp fileData ''dataURL'')
      \<and> truthy N (fileProp fileData ''data'')
      \<and> \<not> (convertible (jsOr N (fileProp fileData ''mimeType'') (JStr ''image/png''))
           \<and> convertible (fileProp fileData ''data'')))"
  using toStr_isl [of N "jsOr N (fileProp fileData ''mimeType'') (JStr ''image/png'')"]
        toStr_isl [of N "fileProp fileData ''data''"]
  by (auto simp add: resolveDataUrl_def Let_def split: sum.splits)

lemma imageInfoOf_isl_key:
  "isl (imageInfoOf N files element) =
     (case toStr N (getProp element ''fileId'') of
        Inl e \<Rightarrow> True
      | Inr key \<Rightarrow> isl (resolveDataUrl N (filesAt files key)))"
  by (simp add: imageInfoOf_def lookupFile_def Let_def split: sum.splits)

lemma imageInfoOf_isl:
  assumes "isImageElement N element"
  shows "isl (imageInfoOf N files element) = entryRaises N files element"
proof -
  from assms have "\<not> nullish element"
    by (auto dest: isImageElement_object)
  with assms show ?thesis
    unfolding imageInfoOf_isl_key entryRaises_def
    by (simp add: resolveDataUrl_isl Let_def split: sum.splits)
qed

lemma entryRaises_cases:
  "entryRaises N files element \<Longrightarrow> nullish element \<or> isImageElement N element"
  by (auto simp add: entryRaises_def)

lemma identifyLoop_isl:
  "isl (identifyLoop N files elements images) = (\<exists>element \<in> set elements. entryRaises N files element)"
proof (induction elements arbitrary: images)
  case Nil
  show ?case by simp
next
  case (Cons element rest)
  show ?case
  proof (cases "nullish element")
    case True
    then show ?thesis by (simp add: entryRaises_def)
  next
    case notnull: False
    show ?thesis
    proof (cases "isImageElement N element")
      case True
      with notnull imageInfoOf_isl [OF True, of files] Cons show ?thesis
        by (cases "imageInfoOf N files element") auto
    next
      case False
      with notnull have "\<not> entryRaises N files element"
        by (auto dest: entryRaises_cases)
      with notnull False Cons show ?thesis by simp
    qed
  qed
qed

lemma identifyLoop_returned:
  "identifyLoop N files elements images = Inr result \<Longrightarrow>
   map Inr result = map Inr images @ map (imageInfoOf N files) (filter (isImageElement N) elements)"
proof (induction elements arbitrary: images)
  case Nil
  then show ?case by auto
next
  case (Cons element rest)
  then show ?case
    by (auto split: if_splits sum.splits)
qed

lemma identifyImages_returned:
  assumes "identifyImages N elements files = Inr images"
  shows "length images = length (filter (isImageElement N) elements)"
    and "\<forall>k < length images.
           imageInfoOf N files (filter (isImageElement N) elements ! k) = Inr (images ! k)"
proof -
  from assms have m: "map Inr images = map (imageInfoOf N files) (filter (isImageElement N) elements)"
    unfolding identifyImages_def by (auto dest: identifyLoop_returned)
  then show l: "length images = length (filter (isImageElement N) elements)"
    by (metis length_map)
  show "\<forall>k < length images.
           imageInfoOf N files (filter (isImageElement N) elements ! k) = Inr (images ! k)"
  proof (intro allI impI)
    fix k assume k: "k < length images"
    have "map (imageInfoOf N files) (filter (isImageElement N) elements) ! k = map Inr images ! k"
      using m by simp
    with k l show "imageInfoOf N files (filter (isImageElement N) elements ! k) = Inr (images ! k)"
      by simp
  qed
qed

lemma imageInfoOf_Inr:
  assumes "imageInfoOf N files element = Inr info"
  shows "\<exists>key dataUrl.
           toStr N (getProp element ''fileId'') = Inr key
         \<and> resolveDataUrl N (filesAt files key) = Inr dataUrl
         \<and> info_id info = getProp element ''id''
         \<and> info_fileId info = getProp element ''fileId''
         \<and> info_x info = jsCoalesce (getProp element ''x'') (JNum (num_zero N))
         \<and> info_y info = jsCoalesce (getProp element ''y'') (JNum (num_zero N))
         \<and> info_width info = jsCoalesce (getProp element ''width'') (JNum (num_zero N))
         \<and> info_height info = jsCoalesce (getProp element ''height'') (JNum (num_zero N))
         \<and> info_fileName info =
             (if fileTruthy N (filesAt files key)
              then jsOr N (fileProp (filesAt files key) ''name'')
                     (jsOr N (fileProp (filesAt files key) ''id'') (getProp element ''fileId''))
              else JUndefined)
         \<and> info_mimeType info =
             (if fileTruthy N (filesAt files key)
              then jsOr N (fileProp (filesAt files key) ''mimeType'') (JStr ''image/png'')
              else JUndefined)
         \<and> info_dataUrl info = dataUrl"
  using assms
  by (auto simp add: imageInfoOf_def lookupFile_def Let_def split: sum.splits)

lemma filesAt_absent:
  "files key = None \<Longrightarrow> resolveDataUrl N (filesAt files key) = Inr JUndefined"
  by (simp add: filesAt_def inheritedMember_def resolveDataUrl_def)

lemma objectPrototypeFunctions_nonempty: "key \<in> set objectPrototypeFunctions \<Longrightarrow> key \<noteq> []"
  by (auto simp add: objectPrototypeFunctions_def)

lemma inherited_fileName:
  assumes "files key = None"
  shows "(if fileTruthy N (filesAt files key)
          then jsOr N (fileProp (filesAt files key) ''name'')
                 (jsOr N (fileProp (filesAt files key) ''id'') fileId)
          else JUndefined)
       = (if key = ''constructor'' then JStr ''Object''
          else if key \<in> set objectPrototypeFunctions then JStr key
          else if key = ''__proto__'' then fileId
          else JUndefined)"
proof -
  from assms have at: "filesAt files key = inheritedMember key"
    by (simp add: filesAt_def)
  show ?thesis
    unfolding at inheritedMember_def
    by (simp add: jsOr_def objectPrototypeFunctions_nonempty)
qed

text \<open>
  Claim C1, as amended. For every element list and asset map on which \<open>identifyImages\<close>
  returns, it returns exactly one \<open>ImageInfo\<close> per element whose \<^verbatim>\<open>type\<close> is
  \<^verbatim>\<open>"image"\<close> and whose \<^verbatim>\<open>fileId\<close> is non-empty (truthy), in the order of the input:
  the \<open>k\<close>-th descriptor carries the \<^verbatim>\<open>id\<close> and \<^verbatim>\<open>fileId\<close> of the \<open>k\<close>-th such
  element, and its geometry, a missing (or \<^verbatim>\<open>null\<close>) field being zero. An element
  whose \<^verbatim>\<open>fileId\<close> is not a key of the asset map still yields its descriptor, with no
  resolved representation.
\<close>

theorem identifyImages_one_per_image:
  assumes "identifyImages N elements files = Inr images"
  shows "length images = length (filter (isImageElement N) elements)
       \<and> (\<forall>k < length images.
             let element = filter (isImageElement N) elements ! k; info = images ! k
             in info_id info = getProp element ''id''
              \<and> info_fileId info = getProp element ''fileId''
              \<and> info_x info = (if nullish (getProp element ''x'')
                                then JNum (num_zero N) else getProp element ''x'')
              \<and> info_y info = (if nullish (getProp element ''y'')
                                then JNum (num_zero N) else getProp element ''y'')
              \<and> info_width info = (if nullish (getProp element ''width'')
                                    then JNum (num_zero N) else getProp element ''width'')
              \<and> info_height info = (if nullish (getProp element ''height'')
                                     then JNum (num_zero N) else getProp element ''height'')
              \<and> (\<exists>key. toStr N (getProp element ''fileId'') = Inr key
                     \<and> (files key = None \<longrightarrow> info_dataUrl info = JUndefined)))"
proof (intro conjI allI impI)
  show "length images = length (filter (isImageElement N) elements)"
    using assms by (rule identifyImages_returned(1))
next
  fix k assume "k < length images"
  with identifyImages_returned(2) [OF assms]
  have "imageInfoOf N files (filter (isImageElement N) elements ! k) = Inr (images ! k)"
    by blast
  from imageInfoOf_Inr [OF this] filesAt_absent [of files _ N]
  show "let element = filter (isImageElement N) elements ! k; info = images ! k
        in info_id info = getProp element ''id''
         \<and> info_fileId info = getProp element ''fileId''
         \<and> info_x info = (if nullish (getProp element ''x'')
                           then JNum (num_zero N) else getProp element ''x'')
         \<and> info_y info = (if nullish (getProp element ''y'')
                           then JNum (num_zero N) else getProp element ''y'')
         \<and> info_width info = (if nullish (getProp element ''width'')
                               then JNum (num_zero N) else getProp element ''width'')
         \<and> info_height info = (if nullish (getProp element ''height'')
                                then JNum (num_zero N) else getProp element ''height'')
         \<and> (\<exists>key. toStr N (getProp element ''fileId'') = Inr key
                \<and> (files key = None \<longrightarrow> info_dataUrl info = JUndefined))"
    by (auto simp add: Let_def jsCoalesce_def)
qed

theorem identifyImages_one_per_image_witness:
  "identifyImages int_ops
     [JObj [(''type'', JStr ''rectangle''), (''id'', JStr ''r1'')],
      JObj [(''type'', JStr ''image''), (''id'', JStr ''i1''),
            (''fileId'', JStr ''f1''), (''x'', JNum 7)]]
     Map.empty
   = Inr [\<lparr> info_id = JStr ''i1'', info_fileId = JStr ''f1'',
            info_x = JNum 7, info_y = JNum 0, info_width = JNum 0, info_height = JNum 0,
            info_fileName = JUndefined, info_mimeType = JUndefined,
            info_dataUrl = JUndefined \<rparr>]
   \<and> length [\<lparr> info_id = JStr ''i1'', info_fileId = JStr ''f1'',
            info_x = JNum 7, info_y = JNum 0, info_width = JNum 0, info_height = JNum 0,
            info_fileName = JUndefined, info_mimeType = JUndefined,
            info_dataUrl = JUndefined \<rparr> :: int ImageInfo]
     = length (filter (isImageElement int_ops)
         [JObj [(''type'', JStr ''rectangle''), (''id'', JStr ''r1'')],
          JObj [(''type'', JStr ''image''), (''id'', JStr ''i1''),
                (''fileId'', JStr ''f1''), (''x'', JNum 7)]])
   \<and> length (filter (isImageElement int_ops)
         [JObj [(''type'', JStr ''rectangle''), (''id'', JStr ''r1'')],
          JObj [(''type'', JStr ''image''), (''id'', JStr ''i1''),
                (''fileId'', JStr ''f1''), (''x'', JNum 7)]]) = 1"
proof -
  let ?rect = "JObj [(''type'', JStr ''rectangle''), (''id'', JStr ''r1'')] :: int jsval"
  let ?img = "JObj [(''type'', JStr ''image''), (''id'', JStr ''i1''),
                    (''fileId'', JStr ''f1''), (''x'', JNum 7)] :: int jsval"
  let ?info = "\<lparr> info_id = JStr ''i1'', info_fileId = JStr ''f1'',
            info_x = JNum 7, info_y = JNum 0, info_width = JNum 0, info_height = JNum 0,
            info_fileName = JUndefined, info_mimeType = JUndefined,
            info_dataUrl = JUndefined \<rparr> :: int ImageInfo"
  have r: "identifyImages int_ops [?rect, ?img] Map.empty = Inr [?info]"
    by (simp add: identifyImages_def isImageElement_def imageInfoOf_def lookupFile_def
         filesAt_def inheritedMember_def objectPrototypeFunctions_def resolveDataUrl_def
         jsCoalesce_def int_ops_def)
  have q: "filter (isImageElement int_ops) [?rect, ?img] = [?img]"
    by (simp add: isImageElement_def)
  from identifyImages_one_per_image [OF r, THEN conjunct1]
  have "length [?info] = length (filter (isImageElement int_ops) [?rect, ?img])" .
  moreover from identifyImages_one_per_image [OF r, THEN conjunct2, THEN spec, of 0]
  have "info_id ([?info] ! 0) = JStr ''i1'' \<and> info_x ([?info] ! 0) = JNum 7
      \<and> info_y ([?info] ! 0) = JNum 0 \<and> info_dataUrl ([?info] ! 0) = JUndefined"
    unfolding q by (simp add: Let_def int_ops_def)
  ultimately show ?thesis using r q by simp
qed

text \<open>The claim as written (a descriptor for each image element of every element list)
  fails at a list that holds \<^verbatim>\<open>null\<close> before an image element: the call raises and
  returns no descriptor.\<close>

theorem identifyImages_one_per_image_counterexample:
  "isImageElement int_ops
     (JObj [(''type'', JStr ''image''), (''id'', JStr ''i1''), (''fileId'', JStr ''f1'')])
   \<and> identifyImages int_ops
       [JNull, JObj [(''type'', JStr ''image''), (''id'', JStr ''i1''), (''fileId'', JStr ''f1'')]]
       Map.empty = Inl TypeError"
  by (simp add: identifyImages_def isImageElement_def)

text \<open>
  Claim C2. For every image element, the \<open>k\<close>-th of the list, and its descriptor, the
  \<open>k\<close>-th that \<open>identifyImages\<close> returns, the asset record being the value that the
  asset map holds under the element's \<^verbatim>\<open>fileId\<close> (converted to a key): if the record
  is present (truthy) and has a \<^verbatim>\<open>dataURL\<close>, the descriptor's \<^verbatim>\<open>dataUrl\<close> is that
  value verbatim; else if it has \<^verbatim>\<open>data\<close>, the \<^verbatim>\<open>dataUrl\<close> is the string
  \<^verbatim>\<open>data:\<close>, the media type, \<^verbatim>\<open>;base64,\<close> and the data, the media type being
  \<^verbatim>\<open>image/png\<close> when the record declares none; else the \<^verbatim>\<open>dataUrl\<close> is
  \<^verbatim>\<open>undefined\<close>. A record has a field when the field is truthy: an empty string
  counts as missing. When the asset map holds nothing under the key, the \<^verbatim>\<open>dataUrl\<close>
  is \<^verbatim>\<open>undefined\<close>.
\<close>

theorem identifyImages_dataUrl:
  assumes "identifyImages N elements files = Inr images"
  shows "length images = length (filter (isImageElement N) elements)
       \<and> (\<forall>k < length images.
             let element = filter (isImageElement N) elements ! k
             in \<exists>key. toStr N (getProp element ''fileId'') = Inr key
                \<and> (case files key of
                      None \<Rightarrow> info_dataUrl (images ! k) = JUndefined
                    | Some fileData \<Rightarrow>
                        (let dataURL = getProp fileData ''dataURL'';
                             bytes = getProp fileData ''data'';
                             mimeType = getProp fileData ''mimeType''
                         in truthy N fileData \<longrightarrow>
                              (truthy N dataURL \<longrightarrow> info_dataUrl (images ! k) = dataURL)
                            \<and> (\<not> truthy N dataURL \<and> truthy N bytes \<longrightarrow>
                                 (\<exists>mediaType encoded.
                                    (if truthy N mimeType then toStr N mimeType = Inr mediaType
                                     else mediaType = ''image/png'')
                                  \<and> toStr N bytes = Inr encoded
                                  \<and> info_dataUrl (images ! k) =
                                      JStr (''data:'' @ mediaType @ '';base64,'' @ encoded)))
                            \<and> (\<not> truthy N dataURL \<and> \<not> truthy N bytes \<longrightarrow>
                                 info_dataUrl (images ! k) = JUndefined))))"
proof (intro conjI allI impI)
  show "length images = length (filter (isImageElement N) elements)"
    using assms by (rule identifyImages_returned(1))
next
  fix k assume "k < length images"
  with identifyImages_returned(2) [OF assms]
  have "imageInfoOf N files (filter (isImageElement N) elements ! k) = Inr (images ! k)"
    by blast
  from imageInfoOf_Inr [OF this]
  obtain key dataUrl where key: "toStr N (getProp (filter (isImageElement N) elements ! k) ''fileId'') = Inr key"
    and res: "resolveDataUrl N (filesAt files key) = Inr dataUrl"
    and url: "info_dataUrl (images ! k) = dataUrl"
    by blast
  have "case files key of
          None \<Rightarrow> info_dataUrl (images ! k) = JUndefined
        | Some fileData \<Rightarrow>
            (let dataURL = getProp fileData ''dataURL'';
                 bytes = getProp fileData ''data'';
                 mimeType = getProp fileData ''mimeType''
             in truthy N fileData \<longrightarrow>
                  (truthy N dataURL \<longrightarrow> info_dataUrl (images ! k) = dataURL)
                \<and> (\<not> truthy N dataURL \<and> truthy N bytes \<longrightarrow>
                     (\<exists>mediaType encoded.
                        (if truthy N mimeType then toStr N mimeType = Inr mediaType
                         else mediaType = ''image/png'')
                      \<and> toStr N bytes = Inr encoded
                      \<and> info_dataUrl (images ! k) =
                          JStr (''data:'' @ mediaType @ '';base64,'' @ encoded)))
                \<and> (\<not> truthy N dataURL \<and> \<not> truthy N bytes \<longrightarrow>
                     info_dataUrl (images ! k) = JUndefined))"
  proof (cases "files key")
    case None
    with res url filesAt_absent [of files key N] show ?thesis by simp
  next
    case (Some fileData)
    then have at: "filesAt files key = Own fileData" by (simp add: filesAt_def)
    from res url show ?thesis
      unfolding at Some
      by (auto simp add: resolveDataUrl_def jsOr_def Let_def split: if_splits sum.splits)
  qed
  with key show "let element = filter (isImageElement N) elements ! k
        in \<exists>key. toStr N (getProp element ''fileId'') = Inr key
           \<and> (case files key of
                 None \<Rightarrow> info_dataUrl (images ! k) = JUndefined
               | Some fileData \<Rightarrow>
                   (let dataURL = getProp fileData ''dataURL'';
                        bytes = getProp fileData ''data'';
                        mimeType = getProp fileData ''mimeType''
                    in truthy N fileData \<longrightarrow>
                         (truthy N dataURL \<longrightarrow> info_dataUrl (images ! k) = dataURL)
                       \<and> (\<not> truthy N dataURL \<and> truthy N bytes \<longrightarrow>
                            (\<exists>mediaType encoded.
                               (if truthy N mimeType then toStr N mimeType = Inr mediaType
                                else mediaType = ''image/png'')
                             \<and> toStr N bytes = Inr encoded
                             \<and> info_dataUrl (images ! k) =
                                 JStr (''data:'' @ mediaType @ '';base64,'' @ encoded)))
                       \<and> (\<not> truthy N dataURL \<and> \<not> truthy N bytes \<longrightarrow>
                            info_dataUrl (images ! k) = JUndefined)))"
    unfolding Let_def by blast
qed

theorem identifyImages_dataUrl_witness:
  "identifyImages int_ops
     [JObj [(''type'', JStr ''image''), (''id'', JStr ''i1''), (''fileId'', JStr ''f1'')]]
     [''f1'' \<mapsto> JObj [(''data'', JStr ''AAAA''), (''mimeType'', JStr ''image/jpeg'')]]
   = Inr [\<lparr> info_id = JStr ''i1'', info_fileId = JStr ''f1'',
            info_x = JNum 0, info_y = JNum 0, info_width = JNum 0, info_height = JNum 0,
            info_fileName = JStr ''f1'', info_mimeType = JStr ''image/jpeg'',
            info_dataUrl = JStr ''data:image/jpeg;base64,AAAA'' \<rparr>]
   \<and> truthy int_ops (JObj [(''data'', JStr ''AAAA''), (''mimeType'', JStr ''image/jpeg'')])
   \<and> toStr int_ops (JStr ''f1'') = Inr ''f1''
   \<and> toStr int_ops (JStr ''image/jpeg'') = Inr ''image/jpeg''
   \<and> toStr int_ops (JStr ''AAAA'') = Inr ''AAAA''
   \<and> info_dataUrl
        (\<lparr> info_id = JStr ''i1'', info_fileId = JStr ''f1'',
            info_x = JNum 0, info_y = JNum 0, info_width = JNum 0, info_height = JNum 0,
            info_fileName = JStr ''f1'', info_mimeType = JStr ''image/jpeg'',
            info_dataUrl = JStr ''data:image/jpeg;base64,AAAA'' \<rparr> :: int ImageInfo)
      = JStr (''data:'' @ ''image/jpeg'' @ '';base64,'' @ ''AAAA'')"
proof -
  let ?img = "JObj [(''type'', JStr ''image''), (''id'', JStr ''i1''),
                    (''fileId'', JStr ''f1'')] :: int jsval"
  let ?files = "[''f1'' \<mapsto> JObj [(''data'', JStr ''AAAA''), (''mimeType'', JStr ''image/jpeg'')]]
                :: string \<rightharpoonup> int jsval"
  let ?info = "\<lparr> info_id = JStr ''i1'', info_fileId = JStr ''f1'',
            info_x = JNum 0, info_y = JNum 0, info_width = JNum 0, info_height = JNum 0,
            info_fileName = JStr ''f1'', info_mimeType = JStr ''image/jpeg'',
            info_dataUrl = JStr ''data:image/jpeg;base64,AAAA'' \<rparr> :: int ImageInfo"
  have r: "identifyImages int_ops [?img] ?files = Inr [?info]"
    by (simp add: identifyImages_def isImageElement_def imageInfoOf_def lookupFile_def
         filesAt_def resolveDataUrl_def jsCoalesce_def jsOr_def int_ops_def Let_def)
  have q: "filter (isImageElement int_ops) [?img] = [?img]"
    by (simp add: isImageElement_def)
  from identifyImages_dataUrl [OF r]
  have "info_dataUrl ([?info] ! 0) = JStr (''data:'' @ ''image/jpeg'' @ '';base64,'' @ ''AAAA'')"
    unfolding q by (simp add: Let_def)
  with r show ?thesis by simp
qed

text \<open>
  Claim C5, as amended. \<open>identifyImages\<close> raises, a \<^verbatim>\<open>TypeError\<close>, exactly on the
  lists that hold a \<^verbatim>\<open>null\<close> or \<^verbatim>\<open>undefined\<close> entry, an image element whose
  \<^verbatim>\<open>fileId\<close> cannot be converted to a property key, or an image element whose asset
  record (truthy, without \<^verbatim>\<open>dataURL\<close>, with \<^verbatim>\<open>data\<close>) has a media type or data that
  cannot be converted to a string. A value cannot be converted when it is an object with
  an own \<^verbatim>\<open>toString\<close> property or an array that holds a value of that kind. On every
  other list, malformed entries such as strings, numbers and arrays included, and with
  every asset map, \<open>identifyImages\<close> returns a list: one descriptor per image element,
  every other entry skipped, and only an object is an image element.
\<close>

theorem identifyImages_raises_exactly:
  "(identifyImages N elements files = Inl TypeError)
     = (\<exists>element \<in> set elements. entryRaises N files element)
   \<and> ((\<forall>element \<in> set elements. \<not> entryRaises N files element) \<longrightarrow>
        (\<exists>images. identifyImages N elements files = Inr images
           \<and> length images = length (filter (isImageElement N) elements)
           \<and> length images \<le> length elements))
   \<and> (\<forall>v. (toStr N v = Inl TypeError) = (\<not> convertible v))
   \<and> (\<forall>element. isImageElement N element \<longrightarrow> (\<exists>properties. element = JObj properties))"
proof (intro conjI impI allI)
  show "(identifyImages N elements files = Inl TypeError)
          = (\<exists>element \<in> set elements. entryRaises N files element)"
    using identifyLoop_isl [of N files elements "[]"] js_error_TypeError
    unfolding identifyImages_def
    by (cases "identifyLoop N files elements []") auto
next
  assume "\<forall>element \<in> set elements. \<not> entryRaises N files element"
  with identifyLoop_isl [of N files elements "[]"]
  obtain images where r: "identifyImages N elements files = Inr images"
    unfolding identifyImages_def by (cases "identifyLoop N files elements []") auto
  from identifyImages_returned(1) [OF r]
  have "length images = length (filter (isImageElement N) elements)" .
  moreover have "length (filter (isImageElement N) elements) \<le> length elements"
    by (rule length_filter_le)
  ultimately show "\<exists>images. identifyImages N elements files = Inr images
               \<and> length images = length (filter (isImageElement N) elements)
               \<and> length images \<le> length elements"
    using r by simp
next
  fix v :: "'a jsval"
  show "(toStr N v = Inl TypeError) = (\<not> convertible v)"
    by (rule toStr_raises)
next
  fix element :: "'a jsval"
  assume "isImageElement N element"
  then show "\<exists>properties. element = JObj properties"
    by (rule isImageElement_object)
qed

theorem identifyImages_raises_exactly_witness:
  "\<not> entryRaises int_ops Map.empty (JStr ''junk'')
   \<and> \<not> entryRaises int_ops Map.empty (JArr [JNum 3])
   \<and> (\<exists>images. identifyImages int_ops [JStr ''junk'', JArr [JNum 3]] Map.empty = Inr images
         \<and> length images = 0)
   \<and> entryRaises int_ops Map.empty
       (JObj [(''type'', JStr ''image''), (''id'', JStr ''i1''),
              (''fileId'', JObj [(''toString'', JNum 1)])])
   \<and> identifyImages int_ops
       [JStr ''junk'',
        JObj [(''type'', JStr ''image''), (''id'', JStr ''i1''),
              (''fileId'', JObj [(''toString'', JNum 1)])]]
       Map.empty = Inl TypeError
   \<and> entryRaises int_ops [''f1'' \<mapsto> JObj [(''data'', JObj [(''toString'', JNum 1)])]]
       (JObj [(''type'', JStr ''image''), (''id'', JStr ''i1''), (''fileId'', JStr ''f1'')])
   \<and> identifyImages int_ops
       [JObj [(''type'', JStr ''image''), (''id'', JStr ''i1''), (''fileId'', JStr ''f1'')]]
       [''f1'' \<mapsto> JObj [(''data'', JObj [(''toString'', JNum 1)])]] = Inl TypeError"
proof -
  let ?bad = "JObj [(''type'', JStr ''image''), (''id'', JStr ''i1''),
                    (''fileId'', JObj [(''toString'', JNum 1)])] :: int jsval"
  let ?img = "JObj [(''type'', JStr ''image''), (''id'', JStr ''i1''),
                    (''fileId'', JStr ''f1'')] :: int jsval"
  let ?files = "[''f1'' \<mapsto> JObj [(''data'', JObj [(''toString'', JNum 1)])]]
                :: string \<rightharpoonup> int jsval"
  have e1: "\<not> entryRaises int_ops Map.empty (JStr ''junk'')"
    by (simp add: entryRaises_def isImageElement_def)
  have e2: "\<not> entryRaises int_ops Map.empty (JArr [JNum 3])"
    by (simp add: entryRaises_def isImageElement_def)
  have e3: "entryRaises int_ops Map.empty ?bad"
    by (simp add: entryRaises_def isImageElement_def)
  have e4: "entryRaises int_ops ?files ?img"
    by (simp add: entryRaises_def isImageElement_def filesAt_def jsOr_def Let_def)
  from e1 e2 identifyImages_raises_exactly [of int_ops "[JStr ''junk'', JArr [JNum 3]]" Map.empty]
  obtain images where r: "identifyImages int_ops [JStr ''junk'', JArr [JNum 3]] Map.empty = Inr images"
    and len: "length images = length (filter (isImageElement int_ops) [JStr ''junk'', JArr [JNum 3]])"
    by auto
  from len have "length images = 0" by (simp add: isImageElement_def)
  with r have "\<exists>images. identifyImages int_ops [JStr ''junk'', JArr [JNum 3]] Map.empty = Inr images
                 \<and> length images = 0"
    by blast
  moreover have "identifyImages int_ops [JStr ''junk'', ?bad] Map.empty = Inl TypeError"
    using e3 identifyImages_raises_exactly [of int_ops "[JStr ''junk'', ?bad]" Map.empty]
    by simp
  moreover have "identifyImages int_ops [?img] ?files = Inl TypeError"
    using e4 identifyImages_raises_exactly [of int_ops "[?img]" ?files]
    by simp
  ultimately show ?thesis using e1 e2 e3 e4 by simp
qed

text \<open>The claim as written (no list makes \<open>identifyImages\<close> raise, \<^verbatim>\<open>null\<close> entries
  included) fails at the list \<^verbatim>\<open>[null]\<close>.\<close>

theorem identifyImages_null_counterexample:
  "identifyImages int_ops [JNull] Map.empty = Inl TypeError"
  by (simp add: identifyImages_def)

text \<open>
  Claim C6, as amended. For every image element, the \<open>k\<close>-th of the list, and its
  descriptor, the \<open>k\<close>-th that \<open>identifyImages\<close> returns: when the asset map holds a
  record under the element's \<^verbatim>\<open>fileId\<close> (converted to a key) and the record is truthy,
  the \<^verbatim>\<open>fileName\<close> is the record's \<^verbatim>\<open>name\<close>, else the record's \<^verbatim>\<open>id\<close>, else the
  element's \<^verbatim>\<open>fileId\<close>; when the record is falsy, the \<^verbatim>\<open>fileName\<close> is
  \<^verbatim>\<open>undefined\<close>. When the asset map holds nothing under the key, the \<^verbatim>\<open>fileName\<close>
  is \<^verbatim>\<open>undefined\<close>, but for the keys that every object inherits: it is \<^verbatim>\<open>"Object"\<close>
  for the key \<^verbatim>\<open>constructor\<close>, the key itself for the ten other names of the methods
  of \<^verbatim>\<open>Object.prototype\<close>, and the \<^verbatim>\<open>fileId\<close> for the key \<^verbatim>\<open>__proto__\<close>.
\<close>

theorem identifyImages_fileName:
  assumes "identifyImages N elements files = Inr images"
  shows "length images = length (filter (isImageElement N) elements)
       \<and> (\<forall>k < length images.
             let element = filter (isImageElement N) elements ! k;
                 fileId = getProp element ''fileId''
             in \<exists>key. toStr N fileId = Inr key
                \<and> info_fileName (images ! k) =
                    (case files key of
                       Some fileData \<Rightarrow>
                         (if \<not> truthy N fileData then JUndefined
                          else if truthy N (getProp fileData ''name'') then getProp fileData ''name''
                          else if truthy N (getProp fileData ''id'') then getProp fileData ''id''
                          else fileId)
                     | None \<Rightarrow>
                         (if key = ''constructor'' then JStr ''Object''
                          else if key \<in> set objectPrototypeFunctions then JStr key
                          else if key = ''__proto__'' then fileId
                          else JUndefined)))"
proof (intro conjI allI impI)
  show "length images = length (filter (isImageElement N) elements)"
    using assms by (rule identifyImages_returned(1))
next
  fix k assume "k < length images"
  with identifyImages_returned(2) [OF assms]
  have "imageInfoOf N files (filter (isImageElement N) elements ! k) = Inr (images ! k)"
    by blast
  from imageInfoOf_Inr [OF this]
  obtain key where key: "toStr N (getProp (filter (isImageElement N) elements ! k) ''fileId'') = Inr key"
    and name: "info_fileName (images ! k) =
             (if fileTruthy N (filesAt files key)
              then jsOr N (fileProp (filesAt files key) ''name'')
                     (jsOr N (fileProp (filesAt files key) ''id'')
                        (getProp (filter (isImageElement N) elements ! k) ''fileId''))
              else JUndefined)"
    by blast
  have "info_fileName (images ! k) =
          (case files key of
             Some fileData \<Rightarrow>
               (if \<not> truthy N fileData then JUndefined
                else if truthy N (getProp fileData ''name'') then getProp fileData ''name''
                else if truthy N (getProp fileData ''id'') then getProp fileData ''id''
                else getProp (filter (isImageElement N) elements ! k) ''fileId'')
           | None \<Rightarrow>
               (if key = ''constructor'' then JStr ''Object''
                else if key \<in> set objectPrototypeFunctions then JStr key
                else if key = ''__proto__'' then getProp (filter (isImageElement N) elements ! k) ''fileId''
                else JUndefined))"
  proof (cases "files key")
    case None
    show ?thesis
      unfolding name using None inherited_fileName [of files key N] by simp
  next
    case (Some fileData)
    then have "filesAt files key = Own fileData" by (simp add: filesAt_def)
    then show ?thesis
      unfolding name by (simp add: Some jsOr_def)
  qed
  with key show "let element = filter (isImageElement N) elements ! k;
            fileId = getProp element ''fileId''
        in \<exists>key. toStr N fileId = Inr key
           \<and> info_fileName (images ! k) =
               (case files key of
                  Some fileData \<Rightarrow>
                    (if \<not> truthy N fileData then JUndefined
                     else if truthy N (getProp fileData ''name'') then getProp fileData ''name''
                     else if truthy N (getProp fileData ''id'') then getProp fileData ''id''
                     else fileId)
                | None \<Rightarrow>
                    (if key = ''constructor'' then JStr ''Object''
                     else if key \<in> set objectPrototypeFunctions then JStr key
                     else if key = ''__proto__'' then fileId
                     else JUndefined))"
    unfolding Let_def by blast
qed

theorem identifyImages_fileName_witness:
  "identifyImages int_ops
     [JObj [(''type'', JStr ''image''), (''id'', JStr ''i1''), (''fileId'', JStr ''f1'')],
      JObj [(''type'', JStr ''image''), (''id'', JStr ''i2''), (''fileId'', JStr ''constructor'')]]
     [''f1'' \<mapsto> JObj [(''dataURL'', JStr ''data:image/png;base64,AAAA''),
                        (''id'', JStr ''asset-1'')]]
   = Inr [\<lparr> info_id = JStr ''i1'', info_fileId = JStr ''f1'',
            info_x = JNum 0, info_y = JNum 0, info_width = JNum 0, info_height = JNum 0,
            info_fileName = JStr ''asset-1'', info_mimeType = JStr ''image/png'',
            info_dataUrl = JStr ''data:image/png;base64,AAAA'' \<rparr>,
          \<lparr> info_id = JStr ''i2'', info_fileId = JStr ''constructor'',
            info_x = JNum 0, info_y = JNum 0, info_width = JNum 0, info_height = JNum 0,
            info_fileName = JStr ''Object'', info_mimeType = JStr ''image/png'',
            info_dataUrl = JUndefined \<rparr>]
   \<and> info_fileName
       (\<lparr> info_id = JStr ''i1'', info_fileId = JStr ''f1'',
           info_x = JNum 0, info_y = JNum 0, info_width = JNum 0, info_height = JNum 0,
           info_fileName = JStr ''asset-1'', info_mimeType = JStr ''image/png'',
           info_dataUrl = JStr ''data:image/png;base64,AAAA'' \<rparr> :: int ImageInfo)
     = JStr ''asset-1''
   \<and> info_fileName
       (\<lparr> info_id = JStr ''i2'', info_fileId = JStr ''constructor'',
           info_x = JNum 0, info_y = JNum 0, info_width = JNum 0, info_height = JNum 0,
           info_fileName = JStr ''Object'', info_mimeType = JStr ''image/png'',
           info_dataUrl = JUndefined \<rparr> :: int ImageInfo)
     = JStr ''Object''"
proof -
  let ?img1 = "JObj [(''type'', JStr ''image''), (''id'', JStr ''i1''),
                     (''fileId'', JStr ''f1'')] :: int jsval"
  let ?img2 = "JObj [(''type'', JStr ''image''), (''id'', JStr ''i2''),
                     (''fileId'', JStr ''constructor'')] :: int jsval"
  let ?files = "[''f1'' \<mapsto> JObj [(''dataURL'', JStr ''data:image/png;base64,AAAA''),
                                   (''id'', JStr ''asset-1'')]]
                :: string \<rightharpoonup> int jsval"
  let ?info1 = "\<lparr> info_id = JStr ''i1'', info_fileId = JStr ''f1'',
            info_x = JNum 0, info_y = JNum 0, info_width = JNum 0, info_height = JNum 0,
            info_fileName = JStr ''asset-1'', info_mimeType = JStr ''image/png'',
            info_dataUrl = JStr ''data:image/png;base64,AAAA'' \<rparr> :: int ImageInfo"
  let ?info2 = "\<lparr> info_id = JStr ''i2'', info_fileId = JStr ''constructor'',
            info_x = JNum 0, info_y = JNum 0, info_width = JNum 0, info_height = JNum 0,
            info_fileName = JStr ''Object'', info_mimeType = JStr ''image/png'',
            info_dataUrl = JUndefined \<rparr> :: int ImageInfo"
  have r: "identifyImages int_ops [?img1, ?img2] ?files = Inr [?info1, ?info2]"
    by (simp add: identifyImages_def isImageElement_def imageInfoOf_def lookupFile_def
         filesAt_def inheritedMember_def resolveDataUrl_def
         jsCoalesce_def jsOr_def int_ops_def Let_def)
  have q: "filter (isImageElement int_ops) [?img1, ?img2] = [?img1, ?img2]"
    by (simp add: isImageElement_def)
  from identifyImages_fileName [OF r, THEN conjunct2, THEN spec, of 1]
  have "info_fileName ([?info1, ?info2] ! 1) = JStr ''Object''"
    unfolding q by (simp add: Let_def)
  moreover from identifyImages_fileName [OF r, THEN conjunct2, THEN spec, of 0]
  have "info_fileName ([?info1, ?info2] ! 0) = JStr ''asset-1''"
    unfolding q by (simp add: Let_def)
  ultimately show ?thesis using r by simp
qed

text \<open>The claim as written (for every image element the name falls back to the
  \<^verbatim>\<open>fileId\<close> at last) fails at an image element whose \<^verbatim>\<open>fileId\<close> is not in the
  asset map: its \<^verbatim>\<open>fileName\<close> is \<^verbatim>\<open>undefined\<close>, not \<^verbatim>\<open>"f1"\<close>.\<close>

theorem identifyImages_fileName_counterexample:
  "identifyImages int_ops
     [JObj [(''type'', JStr ''image''), (''id'', JStr ''i1''), (''fileId'', JStr ''f1'')]]
     Map.empty =
   Inr [\<lparr> info_id = JStr ''i1'', info_fileId = JStr ''f1'',
          info_x = JNum 0, info_y = JNum 0, info_width = JNum 0, info_height = JNum 0,
          info_fileName = JUndefined, info_mimeType = JUndefined,
          info_dataUrl = JUndefined \<rparr>]"
  by (simp add: identifyImages_def isImageElement_def imageInfoOf_def lookupFile_def
       filesAt_def inheritedMember_def objectPrototypeFunctions_def resolveDataUrl_def
       jsCoalesce_def int_ops_def)

section \<open>Properties of the modal\<close>

lemma jsRem_nonneg: "0 \<le> a \<Longrightarrow> 0 < n \<Longrightarrow> jsRem a n = a mod n"
  by (cases "a = 0") (simp_all add: jsRem_def)

lemma arrayAt_mod:
  "xs \<noteq> [] \<Longrightarrow> arrayAt xs (a mod int (length xs)) = Some (xs ! nat (a mod int (length xs)))"
  by (simp add: arrayAt_def)

text \<open>
  Claim C7. For every non-empty list of \<open>n\<close> located images and every current index \<open>i\<close>
  with \<open>0 \<le> i < n\<close>, \<open>navigateToNextImage\<close> moves the index to \<open>(i + 1) mod n\<close> (from
  \<open>n - 1\<close> to 0) and \<open>navigateToPrevImage\<close> moves it to \<open>(i - 1 + n) mod n\<close> (from 0 to
  \<open>n - 1\<close>), the selected image being the one at the new index; the right and left
  arrow keys of the open modal are these two operations.
\<close>

theorem navigation_wraps:
  assumes "identifiedImages s \<noteq> []"
    and "0 \<le> currentImageIndex s"
    and "currentImageIndex s < int (length (identifiedImages s))"
  shows "(let i = currentImageIndex s; n = int (length (identifiedImages s));
              next = navigateToNextImage s; prev = navigateToPrevImage s
          in currentImageIndex next = (i + 1) mod n
           \<and> selectedImage next = Some (identifiedImages s ! nat ((i + 1) mod n))
           \<and> (i = n - 1 \<longrightarrow> currentImageIndex next = 0)
           \<and> currentImageIndex prev = (i - 1 + n) mod n
           \<and> selectedImage prev = Some (identifiedImages s ! nat ((i - 1 + n) mod n))
           \<and> (i = 0 \<longrightarrow> currentImageIndex prev = n - 1)
           \<and> (isModalOpen s \<longrightarrow> keydown ''ArrowRight'' s = next \<and> keydown ''ArrowLeft'' s = prev))"
proof -
  let ?n = "int (length (identifiedImages s))"
  have n: "0 < ?n" using assms(1) by simp
  have nx: "jsRem (currentImageIndex s + 1) ?n = (currentImageIndex s + 1) mod ?n"
    using assms(2) n by (intro jsRem_nonneg) simp_all
  have pv: "jsRem (currentImageIndex s - 1 + ?n) ?n = (currentImageIndex s - 1 + ?n) mod ?n"
    using assms(2) n by (intro jsRem_nonneg) linarith+
  show ?thesis
    using assms n
    by (simp add: Let_def navigateToNextImage_def navigateToPrevImage_def nx pv arrayAt_mod
        keydown_def handleKeyboard_def zmod_minus1)
qed

theorem navigation_wraps_witness:
  "[''a'', ''b'', ''c''] \<noteq> [] \<and> (0::int) \<le> 2 \<and> (2::int) < int (length [''a'', ''b'', ''c''])
   \<and> currentImageIndex (navigateToNextImage
        \<lparr> identifiedImages = [''a'', ''b'', ''c''], selectedImage = Some ''c'',
          currentImageIndex = 2, isModalOpen = True,
          selectedImageRef = Some ''c'', isModalOpenRef = True \<rparr>) = 0
   \<and> selectedImage (navigateToNextImage
        \<lparr> identifiedImages = [''a'', ''b'', ''c''], selectedImage = Some ''c'',
          currentImageIndex = 2, isModalOpen = True,
          selectedImageRef = Some ''c'', isModalOpenRef = True \<rparr>) = Some ''a''
   \<and> currentImageIndex (navigateToPrevImage
        \<lparr> identifiedImages = [''a'', ''b'', ''c''], selectedImage = Some ''c'',
          currentImageIndex = 2, isModalOpen = True,
          selectedImageRef = Some ''c'', isModalOpenRef = True \<rparr>) = 1"
  using navigation_wraps [of "\<lparr> identifiedImages = [''a'', ''b'', ''c''], selectedImage = Some ''c'',
          currentImageIndex = 2, isModalOpen = True,
          selectedImageRef = Some ''c'', isModalOpenRef = True \<rparr>"]
  by (simp add: Let_def)

text \<open>
  Claim C8. From every open modal state, whatever its current index, the Escape key
  closes the modal: the selected image is cleared and the modal-open flag is false, in
  the state and in the refs. The closed state is terminal for the keyboard: no key
  changes it.
\<close>

theorem escape_closes_modal:
  assumes "isModalOpen s"
  shows "\<not> isModalOpen (keydown ''Escape'' s)
       \<and> selectedImage (keydown ''Escape'' s) = None
       \<and> \<not> isModalOpenRef (keydown ''Escape'' s)
       \<and> selectedImageRef (keydown ''Escape'' s) = None
       \<and> identifiedImages (keydown ''Escape'' s) = identifiedImages s
       \<and> currentImageIndex (keydown ''Escape'' s) = currentImageIndex s
       \<and> (\<forall>key. keydown key (keydown ''Escape'' s) = keydown ''Escape'' s)"
  using assms by (simp add: keydown_def handleKeyboard_def)

theorem escape_closes_modal_witness:
  "isModalOpen \<lparr> identifiedImages = [''a'', ''b'', ''c''], selectedImage = Some ''b'',
          currentImageIndex = 1, isModalOpen = True,
          selectedImageRef = Some ''b'', isModalOpenRef = True \<rparr>
   \<and> keydown ''Escape'' \<lparr> identifiedImages = [''a'', ''b'', ''c''], selectedImage = Some ''b'',
          currentImageIndex = 1, isModalOpen = True,
          selectedImageRef = Some ''b'', isModalOpenRef = True \<rparr>
     = \<lparr> identifiedImages = [''a'', ''b'', ''c''], selectedImage = None,
          currentImageIndex = 1, isModalOpen = False,
          selectedImageRef = None, isModalOpenRef = False \<rparr>
   \<and> keydown ''ArrowRight'' (keydown ''Escape''
         \<lparr> identifiedImages = [''a'', ''b'', ''c''], selectedImage = Some ''b'',
          currentImageIndex = 1, isModalOpen = True,
          selectedImageRef = Some ''b'', isModalOpenRef = True \<rparr>)
     = \<lparr> identifiedImages = [''a'', ''b'', ''c''], selectedImage = None,
          currentImageIndex = 1, isModalOpen = False,
          selectedImageRef = None, isModalOpenRef = False \<rparr>"
  using escape_closes_modal [of "\<lparr> identifiedImages = [''a'', ''b'', ''c''], selectedImage = Some ''b'',
          currentImageIndex = 1, isModalOpen = True,
          selectedImageRef = Some ''b'', isModalOpenRef = True \<rparr>"]
  by (simp add: keydown_def handleKeyboard_def)

section \<open>Properties of the export buttons\<close>

subsection \<open>Printing\<close>

text \<open>
  Claim C9. The print path (the viewer not loading) records the document theme, forces
  the light theme (class and stored preference) and opens the print dialog; after the
  \<^verbatim>\<open>afterprint\<close> event the document theme is the starting one, and the stored
  preference names it, for the dark and for the light starting theme.
\<close>

theorem print_restores_theme:
  assumes "\<not> isExcalLoading s"
  shows "previousThemeRef (handlePrintPDF s) = Some (if darkClass s then ''dark'' else ''light'')
       \<and> \<not> darkClass (handlePrintPDF s)
       \<and> storedTheme (handlePrintPDF s) = Some ''light''
       \<and> printCalls (handlePrintPDF s) = printCalls s + 1
       \<and> darkClass (handleAfterPrint (handlePrintPDF s)) = darkClass s
       \<and> storedTheme (handleAfterPrint (handlePrintPDF s))
           = Some (if darkClass s then ''dark'' else ''light'')"
  using assms by (simp add: handlePrintPDF_def handleAfterPrint_def)

theorem print_restores_theme_witness:
  "\<not> isExcalLoading \<lparr> darkClass = True, storedTheme = None, previousThemeRef = None,
                        isPrinting = False, isExcalLoading = False, printCalls = 0 \<rparr>
   \<and> \<not> darkClass (handlePrintPDF
         \<lparr> darkClass = True, storedTheme = None, previousThemeRef = None,
           isPrinting = False, isExcalLoading = False, printCalls = 0 \<rparr>)
   \<and> darkClass (handleAfterPrint (handlePrintPDF
         \<lparr> darkClass = True, storedTheme = None, previousThemeRef = None,
           isPrinting = False, isExcalLoading = False, printCalls = 0 \<rparr>))
   \<and> storedTheme (handleAfterPrint (handlePrintPDF
         \<lparr> darkClass = True, storedTheme = None, previousThemeRef = None,
           isPrinting = False, isExcalLoading = False, printCalls = 0 \<rparr>)) = Some ''dark''
   \<and> \<not> isExcalLoading \<lparr> darkClass = False, storedTheme = Some ''light'',
                          previousThemeRef = Some ''dark'',
                          isPrinting = False, isExcalLoading = False, printCalls = 1 \<rparr>
   \<and> \<not> darkClass (handleAfterPrint (handlePrintPDF
         \<lparr> darkClass = False, storedTheme = Some ''light'', previousThemeRef = Some ''dark'',
           isPrinting = False, isExcalLoading = False, printCalls = 1 \<rparr>))
   \<and> storedTheme (handleAfterPrint (handlePrintPDF
         \<lparr> darkClass = False, storedTheme = Some ''light'', previousThemeRef = Some ''dark'',
           isPrinting = False, isExcalLoading = False, printCalls = 1 \<rparr>)) = Some ''light''"
  using print_restores_theme [of "\<lparr> darkClass = True, storedTheme = None, previousThemeRef = None,
                        isPrinting = False, isExcalLoading = False, printCalls = 0 \<rparr>"]
    print_restores_theme [of "\<lparr> darkClass = False, storedTheme = Some ''light'',
                        previousThemeRef = Some ''dark'',
                        isPrinting = False, isExcalLoading = False, printCalls = 1 \<rparr>"]
  by simp

subsection \<open>Downloading\<close>

lemma viewerAction_generateSVG:
  "expandos c ''__generateSVG'' = None \<Longrightarrow> expandos (viewerAction a c) ''__generateSVG'' = None"
  by (cases a) (simp_all add: exposeViewer_def)

lemma viewerContainer_generateSVG: "expandos (viewerContainer actions) ''__generateSVG'' = None"
proof -
  have "expandos c ''__generateSVG'' = None \<Longrightarrow>
        expandos (foldl (\<lambda>c a. viewerAction a c) c actions) ''__generateSVG'' = None" for c
    by (induction actions arbitrary: c) (simp_all add: viewerAction_generateSVG)
  then show ?thesis by (simp add: viewerContainer_def freshContainer_def)
qed

text \<open>
  Claim C10. \<open>handleDownloadSVG\<close> asks the node for \<^verbatim>\<open>__generateSVG\<close>; the viewer
  defines \<^verbatim>\<open>__generateLightSVG\<close>, \<^verbatim>\<open>__forceLightRender\<close> and \<^verbatim>\<open>__isLoading\<close> only.
  So whatever the viewer has done to its node, a download never regenerates: it takes the
  SVG currently rendered in the node, or else the article's.
\<close>

theorem download_never_regenerates:
  "handleDownloadSVG loading (Some (viewerContainer actions)) articleSvg =
     (if loading then Blocked
      else case renderedSvg (viewerContainer actions) of
             Some svg \<Rightarrow> Downloaded Rendered svg
           | None \<Rightarrow> (case articleSvg of
                        Some svg \<Rightarrow> Downloaded ArticleFallback svg
                      | None \<Rightarrow> AlertNoSvg))
   \<and> handleDownloadSVG loading (Some (viewerContainer actions)) articleSvg
       \<noteq> Downloaded Regenerated svg'"
  by (simp add: handleDownloadSVG_def viewerContainer_generateSVG split: option.splits)

theorem download_never_regenerates_witness:
  "handleDownloadSVG False
     (Some (viewerContainer [ExposeFunctions True None, Render (Some ''<svg/>''),
                             ExposeFunctions False (Some ''<svg light/>'')]))
     None
   = Downloaded Rendered ''<svg/>''"
  using download_never_regenerates
    [of False "[ExposeFunctions True None, Render (Some ''<svg/>''),
                ExposeFunctions False (Some ''<svg light/>'')]" None]
  by (simp add: viewerContainer_def freshContainer_def exposeViewer_def)

end
